theory Spec2Isabelle
  imports Complex_Main
begin

section \<open>Values of type double\<close>

text \<open>
  The controller computes on C++ \<^verbatim>\<open>double\<close> values. They are modelled as the
  extended reals of IEEE-754 with a not-a-number value: a finite value carries a real
  number and the four operations on finite values are exact (no rounding, no overflow, one
  zero, taken as positive when it divides); the two infinities and NaN follow the IEEE
  rules. The source tests \<^verbatim>\<open>std::isnan\<close> and divides by configured values, so both
  the NaN and the division by zero of the machine type are part of the model.

  The values of \<^verbatim>\<open>atan\<close> and \<^verbatim>\<open>sin\<close> are irrational and cannot be exact: the C
  library rounds them to a \<^verbatim>\<open>double\<close>. The two functions are therefore not fixed
  here; the solver takes them from outside (see \<open>collaborators\<close>), and what is proved
  of it holds for every rounding of theirs. \<^verbatim>\<open>M_PI\<close> is the double nearest to
  \<open>\<pi>\<close>, a rational number. So \<^verbatim>\<open>M_PI/2 - atan(z)\<close> can be exactly zero, as it is in
  the code once \<open>z\<close> is large: the two nearby doubles subtract without error, and the
  arctangent has been rounded to \<^verbatim>\<open>M_PI/2\<close>.

  Unqualified \<^verbatim>\<open>abs\<close> in the source is read as the \<^verbatim>\<open>double\<close> overload
  of \<^verbatim>\<open>std::abs\<close>, like the qualified calls beside it.
\<close>

datatype double = Fin real | PInf | NInf | NaN

fun isnan :: "double \<Rightarrow> bool" where
  "isnan NaN = True"
| "isnan _ = False"

fun is_finite :: "double \<Rightarrow> bool" where
  "is_finite (Fin _) = True"
| "is_finite _ = False"

fun dneg :: "double \<Rightarrow> double" where
  "dneg (Fin x) = Fin (- x)"
| "dneg PInf = NInf"
| "dneg NInf = PInf"
| "dneg NaN = NaN"

fun dabs :: "double \<Rightarrow> double" where
  "dabs (Fin x) = Fin \<bar>x\<bar>"
| "dabs PInf = PInf"
| "dabs NInf = PInf"
| "dabs NaN = NaN"

text \<open>The infinity with the sign of a real number; NaN for zero.\<close>

definition inf_of_sign :: "real \<Rightarrow> double" where
  "inf_of_sign x = (if 0 < x then PInf else if x < 0 then NInf else NaN)"

fun dadd :: "double \<Rightarrow> double \<Rightarrow> double" where
  "dadd (Fin x) (Fin y) = Fin (x + y)"
| "dadd NaN _ = NaN"
| "dadd _ NaN = NaN"
| "dadd PInf NInf = NaN"
| "dadd NInf PInf = NaN"
| "dadd PInf _ = PInf"
| "dadd NInf _ = NInf"
| "dadd _ PInf = PInf"
| "dadd _ NInf = NInf"

definition dsub :: "double \<Rightarrow> double \<Rightarrow> double" where
  "dsub a b = dadd a (dneg b)"

fun dmul :: "double \<Rightarrow> double \<Rightarrow> double" where
  "dmul (Fin x) (Fin y) = Fin (x * y)"
| "dmul NaN _ = NaN"
| "dmul _ NaN = NaN"
| "dmul (Fin x) PInf = inf_of_sign x"
| "dmul (Fin x) NInf = inf_of_sign (- x)"
| "dmul PInf (Fin y) = inf_of_sign y"
| "dmul NInf (Fin y) = inf_of_sign (- y)"
| "dmul PInf PInf = PInf"
| "dmul NInf NInf = PInf"
| "dmul PInf NInf = NInf"
| "dmul NInf PInf = NInf"

fun ddiv :: "double \<Rightarrow> double \<Rightarrow> double" where
  "ddiv (Fin x) (Fin y) = (if y = 0 then inf_of_sign x else Fin (x / y))"
| "ddiv NaN _ = NaN"
| "ddiv _ NaN = NaN"
| "ddiv (Fin x) PInf = Fin 0"
| "ddiv (Fin x) NInf = Fin 0"
| "ddiv PInf (Fin y) = (if y < 0 then NInf else PInf)"
| "ddiv NInf (Fin y) = (if y < 0 then PInf else NInf)"
| "ddiv PInf PInf = NaN"
| "ddiv PInf NInf = NaN"
| "ddiv NInf PInf = NaN"
| "ddiv NInf NInf = NaN"

text \<open>The comparisons: each is false as soon as one side is NaN, except \<open>!=\<close>.\<close>

fun dless :: "double \<Rightarrow> double \<Rightarrow> bool" where
  "dless (Fin x) (Fin y) = (x < y)"
| "dless NaN _ = False"
| "dless _ NaN = False"
| "dless NInf NInf = False"
| "dless NInf _ = True"
| "dless PInf _ = False"
| "dless (Fin x) PInf = True"
| "dless (Fin x) NInf = False"

definition dgt :: "double \<Rightarrow> double \<Rightarrow> bool" where
  "dgt a b = dless b a"

definition deq :: "double \<Rightarrow> double \<Rightarrow> bool" where
  "deq a b = (\<not> isnan a \<and> \<not> isnan b \<and> a = b)"

definition dge :: "double \<Rightarrow> double \<Rightarrow> bool" where
  "dge a b = (dgt a b \<or> deq a b)"

text \<open>\<^verbatim>\<open>std::min(a, b)\<close> is \<^verbatim>\<open>(b < a) ? b : a\<close> and \<^verbatim>\<open>std::max(a, b)\<close> is
  \<^verbatim>\<open>(a < b) ? b : a\<close>.\<close>

definition dmin :: "double \<Rightarrow> double \<Rightarrow> double" where
  "dmin a b = (if dless b a then b else a)"

definition dmax :: "double \<Rightarrow> double \<Rightarrow> double" where
  "dmax a b = (if dless a b then b else a)"

definition M_PI :: double where
  "M_PI = Fin (884279719003555 / 281474976710656)"

text \<open>An \<^verbatim>\<open>int\<close> or \<^verbatim>\<open>size_t\<close> operand converted to \<^verbatim>\<open>double\<close>.\<close>

definition of_integer :: "int \<Rightarrow> double" where
  "of_integer i = Fin (of_int i)"

section \<open>The quadrant of a pair of signs\<close>

text \<open>\<^verbatim>\<open>Ack6WDController::quadrant\<close>.\<close>

definition quadrant :: "double \<Rightarrow> double \<Rightarrow> nat" where
  "quadrant lin ang =
     (if dgt lin (Fin 0) then (if dge ang (Fin 0) then 0 else 1)
      else (if dgt ang (Fin 0) then 2 else 3))"

section \<open>Vehicle geometry\<close>

text \<open>\<^verbatim>\<open>WheelParams\<close>, with the two empirical factors the controller reads from it.\<close>

record wheel_params =
  wheels_per_side :: nat
  base :: double
  separation :: double
  radius :: double
  base_multiplier :: double
  separation_multiplier :: double
  left_radius_multiplier :: double
  right_radius_multiplier :: double
  angular_velocity_compensation :: double
  steering_angle_correction :: double

text \<open>The locals of \<^verbatim>\<open>update\<close> under "Apply (possibly new) multipliers".\<close>

record geometry =
  wheel_base :: double
  wheel_separation :: double
  left_wheel_radius :: double
  right_wheel_radius :: double
  ang_vel_comp :: double
  steering_correction :: double

definition apply_multipliers :: "wheel_params \<Rightarrow> geometry" where
  "apply_multipliers wheels =
     \<lparr> wheel_base = dmul (base_multiplier wheels) (base wheels),
       wheel_separation = dmul (separation_multiplier wheels) (separation wheels),
       left_wheel_radius = dmul (left_radius_multiplier wheels) (radius wheels),
       right_wheel_radius = dmul (right_radius_multiplier wheels) (radius wheels),
       ang_vel_comp = angular_velocity_compensation wheels,
       steering_correction = steering_angle_correction wheels \<rparr>"

section \<open>Unit conversions at the hardware boundary\<close>

text \<open>\<^verbatim>\<open>get_value() * 2 * 3.14 / 60\<close> on a wheel reading, and \<^verbatim>\<open>v * 60 / 6.283\<close> on
  a wheel command.\<close>

definition rpm_to_rads :: "double \<Rightarrow> double" where
  "rpm_to_rads v = ddiv (dmul (dmul v (Fin 2)) (Fin 3.14)) (Fin 60)"

definition rads_to_rpm :: "double \<Rightarrow> double" where
  "rads_to_rpm v = ddiv (dmul v (Fin 60)) (Fin 6.283)"

section \<open>The controller's state\<close>

text \<open>
  \<^verbatim>\<open>geometry_msgs::msg::TwistStamped\<close>, reduced to the fields the controller uses: the
  stamp of the header in nanoseconds, \<^verbatim>\<open>twist.linear.x\<close> and \<^verbatim>\<open>twist.angular.z\<close>.
\<close>

record twist_stamped =
  stamp :: int
  linear_x :: double
  angular_z :: double

text \<open>The members of class \<^verbatim>\<open>Odometry\<close>; a rolling mean accumulator is the list of
  the samples it holds.\<close>

record odometry =
  timestamp_' :: int
  debug_' :: double
  x_' :: double
  y_' :: double
  heading_' :: double
  linear_' :: double
  angular_' :: double
  wheel_separation_' :: double
  wheel_base_' :: double
  left_wheel_radius_' :: double
  right_wheel_radius_' :: double
  left_wheel_old_pos_' :: double
  right_wheel_old_pos_' :: double
  velocity_rolling_window_size_' :: nat
  linear_accumulator_' :: "double list"
  angular_accumulator_' :: "double list"

text \<open>
  The odometry and transform messages held by the realtime publishers. The orientation is
  kept as the yaw angle handed to \<^verbatim>\<open>setRPY(0, 0, yaw)\<close>.
\<close>

record odometry_msg =
  odom_stamp :: int
  position_x :: double
  position_y :: double
  orientation_yaw :: double
  twist_linear_x :: double
  twist_angular_z :: double

record transform_msg =
  tf_stamp :: int
  translation_x :: double
  translation_y :: double
  rotation_yaw :: double

datatype lifecycle_state =
  PRIMARY_STATE_UNCONFIGURED | PRIMARY_STATE_INACTIVE | PRIMARY_STATE_ACTIVE
| PRIMARY_STATE_FINALIZED

text \<open>
  The controller object; a member \<^verbatim>\<open>name_\<close> of the C++ is written \<open>name_'\<close>.
  \<^verbatim>\<open>received_velocity_msg_ptr_\<close> is a shared pointer, so the
  messages live in a store of their own and the box holds an address (\<open>None\<close> for
  \<^verbatim>\<open>nullptr\<close>). A handle is the cell its \<^verbatim>\<open>velocity\<close> (for a wheel) or
  \<^verbatim>\<open>position\<close> (for a steering joint) member refers to; \<^verbatim>\<open>update\<close> reads and
  writes this one member. Times are in nanoseconds, \<^verbatim>\<open>cmd_vel_timeout_\<close> in
  milliseconds.
\<close>

type_synonym addr = nat

record controller =
  current_state :: lifecycle_state
  is_halted :: bool
  twist_store :: "addr \<Rightarrow> twist_stamped"
  received_velocity_msg_ptr_' :: "addr option"
  cmd_vel_timeout_' :: int
  wheel_params_' :: wheel_params
  open_loop :: bool
  enable_odom_tf :: bool
  odometry_' :: odometry
  previous_publish_timestamp_' :: int
  publish_period_' :: int
  previous_update_timestamp_' :: int
  previous_commands_' :: "twist_stamped list"
  publish_limited_velocity_' :: bool
  odometry_message :: odometry_msg
  odometry_transform_message :: transform_msg
  limited_velocity_command :: twist_stamped
  registered_left_wheel_handles_' :: "double list"
  registered_right_wheel_handles_' :: "double list"
  registered_middle_wheel_handles_' :: "double list"
  registered_left_steering_handles_' :: "double list"
  registered_right_steering_handles_' :: "double list"

text \<open>
  What a tick takes from outside: the clock, and whether each realtime publisher's
  \<^verbatim>\<open>trylock\<close> succeeds.
\<close>

record tick_input =
  current_time :: int
  odometry_trylock :: bool
  transform_trylock :: bool
  limited_velocity_trylock :: bool

text \<open>
  The odometry estimator and the speed limiter are compiled from other translation units,
  and \<^verbatim>\<open>atan\<close> and \<^verbatim>\<open>sin\<close> come from the C library; \<^verbatim>\<open>update\<close> is modelled for
  any behaviour of theirs. \<open>limit_linear v v0 v1 dt\<close> is the value
  \<^verbatim>\<open>limiter_linear_.limit(v, v0, v1, dt)\<close> leaves in \<open>v\<close>; \<open>sine\<close> is
  \<^verbatim>\<open>sin\<close>.
\<close>

record collaborators =
  atan :: "double \<Rightarrow> double"
  sine :: "double \<Rightarrow> double"
  updateOpenLoop :: "odometry \<Rightarrow> double \<Rightarrow> double \<Rightarrow> int \<Rightarrow> odometry"
  updateVel :: "odometry \<Rightarrow> double \<Rightarrow> double \<Rightarrow> int \<Rightarrow> odometry"
  limit_linear :: "double \<Rightarrow> double \<Rightarrow> double \<Rightarrow> double \<Rightarrow> double"
  limit_angular :: "double \<Rightarrow> double \<Rightarrow> double \<Rightarrow> double \<Rightarrow> double"

text \<open>
  What a tick returns: \<^verbatim>\<open>return_type::OK\<close>, or \<^verbatim>\<open>return_type::ERROR\<close> with the
  message it logs. \<open>OutOfRange\<close> stands for an access past the end of a handle vector or
  to an empty command queue, which the C++ leaves undefined.
\<close>

datatype error =
  NullVelocityMessage
| TurningRadiusTooShort
| InvalidWheelVelocity nat
| InvalidSteeringAngle nat
| OutOfRange

datatype return_type = OK | ERROR error

section \<open>Inverse kinematics\<close>

text \<open>
  The steering angles and wheel speeds of \<^verbatim>\<open>update\<close> before the direction matrix is
  applied: the straight case, the curved case, and the error branch (\<open>None\<close>) for a
  turn commanded at zero forward speed.
\<close>

record wheel_targets =
  angle_left :: double
  angle_right :: double
  velocity_left :: double
  velocity_right :: double
  velocity_mid_left :: double
  velocity_mid_right :: double

definition wheel_targets_of ::
  "collaborators \<Rightarrow> geometry \<Rightarrow> double \<Rightarrow> double \<Rightarrow> wheel_targets option" where
  "wheel_targets_of c g linear_command angular_command =
     (if deq angular_command (Fin 0) then
        Some \<lparr> angle_left = Fin 0,
               angle_right = Fin 0,
               velocity_left = dabs (ddiv linear_command (left_wheel_radius g)),
               velocity_right = dabs (ddiv linear_command (right_wheel_radius g)),
               velocity_mid_left = dabs (ddiv linear_command (left_wheel_radius g)),
               velocity_mid_right = dabs (ddiv linear_command (right_wheel_radius g)) \<rparr>
      else if \<not> deq linear_command (Fin 0) then
        (let turning_radius = dabs (ddiv linear_command angular_command);
             al = dsub (ddiv M_PI (Fin 2))
                    (atan c (ddiv (dsub (dmul (Fin 2) turning_radius) (wheel_base g))
                                 (wheel_separation g)));
             ar = dsub (ddiv M_PI (Fin 2))
                    (atan c (ddiv (dadd (dmul (Fin 2) turning_radius) (wheel_base g))
                                 (wheel_separation g)));
             left_axis = dabs (ddiv (wheel_separation g) (dmul (Fin 2) (sine c al)));
             right_axis = dabs (ddiv (wheel_separation g) (dmul (Fin 2) (sine c ar)))
         in Some \<lparr> angle_left = al,
                   angle_right = ar,
                   velocity_left =
                     dmul (dabs (ddiv (dmul angular_command left_axis) (left_wheel_radius g)))
                          (ang_vel_comp g),
                   velocity_right =
                     dmul (dabs (ddiv (dmul angular_command right_axis) (right_wheel_radius g)))
                          (ang_vel_comp g),
                   velocity_mid_left =
                     dmul (dabs (ddiv (dmul angular_command (dsub turning_radius (wheel_base g)))
                                      (left_wheel_radius g)))
                          (ang_vel_comp g),
                   velocity_mid_right =
                     dmul (dabs (ddiv (dmul angular_command (dadd turning_radius (wheel_base g)))
                                      (right_wheel_radius g)))
                          (ang_vel_comp g) \<rparr>)
      else None)"

text \<open>The direction matrix \<^verbatim>\<open>d[4][4]\<close>, one row for each quadrant.\<close>

definition d :: "int list list" where
  "d = [[1, 1, 1, 1], [- 1, - 1, 1, 1], [- 1, - 1, - 1, - 1], [1, 1, - 1, - 1]]"

text \<open>The six signed values \<^verbatim>\<open>update\<close> derives from the targets and the quadrant.\<close>

record setpoint =
  steering_angle_left :: double
  steering_angle_right :: double
  wheel_velocity_left :: double
  wheel_velocity_right :: double
  wheel_velocity_mid_left :: double
  wheel_velocity_mid_right :: double

definition apply_direction :: "geometry \<Rightarrow> nat \<Rightarrow> wheel_targets \<Rightarrow> setpoint" where
  "apply_direction g q t =
     \<lparr> steering_angle_left =
         dmul (dmul (of_integer (d ! q ! 0)) (if q = 0 \<or> q = 3 then angle_left t else angle_right t))
              (steering_correction g),
       steering_angle_right =
         dmul (dmul (of_integer (d ! q ! 1)) (if q = 0 \<or> q = 3 then angle_right t else angle_left t))
              (steering_correction g),
       wheel_velocity_left =
         dmul (of_integer (d ! q ! 2)) (if q = 0 \<or> q = 3 then velocity_left t else velocity_right t),
       wheel_velocity_right =
         dmul (of_integer (d ! q ! 3)) (if q = 0 \<or> q = 3 then velocity_right t else velocity_left t),
       wheel_velocity_mid_left =
         dmul (of_integer (d ! q ! 2))
              (if q = 0 \<or> q = 3 then velocity_mid_left t else velocity_mid_right t),
       wheel_velocity_mid_right =
         dmul (of_integer (d ! q ! 3))
              (if q = 0 \<or> q = 3 then velocity_mid_right t else velocity_mid_left t) \<rparr>"

text \<open>The solver as a whole: targets, quadrant, direction.\<close>

definition solve :: "collaborators \<Rightarrow> geometry \<Rightarrow> double \<Rightarrow> double \<Rightarrow> setpoint option" where
  "solve c g linear_command angular_command =
     (case wheel_targets_of c g linear_command angular_command of
        None \<Rightarrow> None
      | Some t \<Rightarrow> Some (apply_direction g (quadrant linear_command angular_command) t))"

section \<open>Halting\<close>

text \<open>\<^verbatim>\<open>Ack6WDController::halt\<close>: every wheel velocity and steering position to zero.\<close>

definition halt :: "controller \<Rightarrow> controller" where
  "halt s = s
     \<lparr> registered_left_wheel_handles_' := map (\<lambda>_. Fin 0) (registered_left_wheel_handles_' s),
       registered_right_wheel_handles_' := map (\<lambda>_. Fin 0) (registered_right_wheel_handles_' s),
       registered_middle_wheel_handles_' := map (\<lambda>_. Fin 0) (registered_middle_wheel_handles_' s),
       registered_left_steering_handles_' := map (\<lambda>_. Fin 0) (registered_left_steering_handles_' s),
       registered_right_steering_handles_' :=
         map (\<lambda>_. Fin 0) (registered_right_steering_handles_' s) \<rparr>"

section \<open>Fetching the command\<close>

text \<open>
  "Brake if cmd_vel has timeout, override the stored command": \<^verbatim>\<open>last_msg\<close> shares the
  message with the box, so the two assignments change the stored message.
\<close>

definition brake_on_timeout :: "int \<Rightarrow> addr \<Rightarrow> controller \<Rightarrow> controller" where
  "brake_on_timeout now last_msg s =
     (if now - stamp (twist_store s last_msg) > cmd_vel_timeout_' s * 1000000 then
        s \<lparr> twist_store := (twist_store s)
              (last_msg := (twist_store s last_msg) \<lparr> linear_x := Fin 0, angular_z := Fin 0 \<rparr>) \<rparr>
      else s)"

section \<open>Closed-loop feedback\<close>

text \<open>The running sums of the sampling loop and the quadrant \<^verbatim>\<open>q\<close> taken at index 0.\<close>

record feedback =
  left_velocity_mean :: double
  right_velocity_mean :: double
  left_angle_mean :: double
  right_angle_mean :: double
  feedback_q :: nat

function sample_feedback :: "controller \<Rightarrow> nat \<Rightarrow> feedback \<Rightarrow> error + feedback" where
  "sample_feedback s index f =
     (if index < wheels_per_side (wheel_params_' s) then
        (if index < length (registered_left_wheel_handles_' s)
            \<and> index < length (registered_right_wheel_handles_' s)
            \<and> index < length (registered_left_steering_handles_' s)
            \<and> index < length (registered_right_steering_handles_' s)
         then
           (let left_velocity = rpm_to_rads (registered_left_wheel_handles_' s ! index);
                right_velocity = rpm_to_rads (registered_right_wheel_handles_' s ! index);
                left_angle = registered_left_steering_handles_' s ! index;
                right_angle = registered_right_steering_handles_' s ! index;
                f0 = (if index = 0 then f \<lparr> feedback_q := quadrant left_velocity left_angle \<rparr> else f)
            in if isnan left_velocity \<or> isnan right_velocity then
                 Inl (InvalidWheelVelocity index)
               else if isnan left_angle \<or> isnan right_angle then
                 Inl (InvalidSteeringAngle index)
               else
                 sample_feedback s (Suc index)
                   (f0 \<lparr> left_velocity_mean := dadd (left_velocity_mean f0) (dabs left_velocity),
                         right_velocity_mean := dadd (right_velocity_mean f0) (dabs right_velocity),
                         left_angle_mean := dadd (left_angle_mean f0) (dabs left_angle),
                         right_angle_mean := dadd (right_angle_mean f0) (dabs right_angle) \<rparr>))
         else Inl OutOfRange)
      else Inr f)"
  by pat_completeness auto
termination
  by (relation "measure (\<lambda>(s, index, f). wheels_per_side (wheel_params_' s) - index)") auto

declare sample_feedback.simps [simp del]

text \<open>The representative (angle, velocity) pair handed to \<^verbatim>\<open>updateVel\<close>.\<close>

definition encoder_pair :: "controller \<Rightarrow> error + (double \<times> double)" where
  "encoder_pair s =
     (case sample_feedback s 0
             \<lparr> left_velocity_mean = Fin 0, right_velocity_mean = Fin 0,
               left_angle_mean = Fin 0, right_angle_mean = Fin 0, feedback_q = 0 \<rparr> of
        Inl e \<Rightarrow> Inl e
      | Inr f \<Rightarrow>
          (let n = Fin (real (wheels_per_side (wheel_params_' s)));
               lvm = ddiv (left_velocity_mean f) n;
               rvm = ddiv (right_velocity_mean f) n;
               lam = ddiv (left_angle_mean f) n;
               ram = ddiv (right_angle_mean f) n;
               velocity_encoder =
                 dmul (dmin (dabs lvm) (dabs rvm))
                      (of_integer (if feedback_q f = 0 \<or> feedback_q f = 1 then 1 else - 1));
               angle_encoder =
                 dmul (dmax (dabs lam) (dabs ram))
                      (of_integer (if feedback_q f = 0 \<or> feedback_q f = 2 then 1 else - 1))
           in Inr (angle_encoder, velocity_encoder)))"

section \<open>Odometry\<close>

text \<open>
  The odometry step of \<^verbatim>\<open>update\<close>: the command itself in open loop, the encoder pair
  in closed loop. An invalid reading ends the tick before the estimator is called.
\<close>

definition update_odometry ::
  "collaborators \<Rightarrow> int \<Rightarrow> twist_stamped \<Rightarrow> controller \<Rightarrow> error + controller" where
  "update_odometry c now command s =
     (if open_loop s then
        Inr (s \<lparr> odometry_' :=
                   updateOpenLoop c (odometry_' s) (linear_x command) (angular_z command) now \<rparr>)
      else
        (case encoder_pair s of
           Inl e \<Rightarrow> Inl e
         | Inr (angle_encoder, velocity_encoder) \<Rightarrow>
             Inr (s \<lparr> odometry_' :=
                        updateVel c (odometry_' s) angle_encoder velocity_encoder now \<rparr>)))"

text \<open>Publication of the estimate, at most once per publish period.\<close>

definition publish_odometry :: "tick_input \<Rightarrow> controller \<Rightarrow> controller" where
  "publish_odometry inp s =
     (if previous_publish_timestamp_' s + publish_period_' s < current_time inp then
        (let s1 = s \<lparr> previous_publish_timestamp_' :=
                        previous_publish_timestamp_' s + publish_period_' s \<rparr>;
             s2 = (if odometry_trylock inp then
                     s1 \<lparr> odometry_message :=
                            \<lparr> odom_stamp = current_time inp,
                              position_x = x_' (odometry_' s),
                              position_y = y_' (odometry_' s),
                              orientation_yaw = heading_' (odometry_' s),
                              twist_linear_x = linear_' (odometry_' s),
                              twist_angular_z = angular_' (odometry_' s) \<rparr> \<rparr>
                   else s1)
         in if enable_odom_tf s \<and> transform_trylock inp then
              s2 \<lparr> odometry_transform_message :=
                     \<lparr> tf_stamp = current_time inp,
                       translation_x = x_' (odometry_' s),
                       translation_y = y_' (odometry_' s),
                       rotation_yaw = heading_' (odometry_' s) \<rparr> \<rparr>
            else s2)
      else s)"

section \<open>Speed limiting\<close>

text \<open>\<^verbatim>\<open>rclcpp::Duration::seconds\<close>.\<close>

definition seconds :: "int \<Rightarrow> double" where
  "seconds ns = Fin (real_of_int ns / 1000000000)"

text \<open>
  The limiter step: the command is limited against the last two applied commands, replaces
  the older of them in the queue, and is published when asked for. \<open>None\<close> is the read of
  an empty queue.
\<close>

definition limit_command ::
  "collaborators \<Rightarrow> tick_input \<Rightarrow> twist_stamped \<Rightarrow> controller
     \<Rightarrow> (twist_stamped \<times> controller) option" where
  "limit_command c inp command s =
     (let update_dt = current_time inp - previous_update_timestamp_' s;
          s1 = s \<lparr> previous_update_timestamp_' := current_time inp \<rparr>
      in if previous_commands_' s1 = [] then None
         else
           (let last_command = last (previous_commands_' s1);
                second_to_last_command = hd (previous_commands_' s1);
                limited = command
                  \<lparr> linear_x := limit_linear c (linear_x command) (linear_x last_command)
                                 (linear_x second_to_last_command) (seconds update_dt),
                    angular_z := limit_angular c (angular_z command) (angular_z last_command)
                                  (angular_z second_to_last_command) (seconds update_dt) \<rparr>;
                s2 = s1 \<lparr> previous_commands_' := tl (previous_commands_' s1) @ [limited] \<rparr>
            in Some (limited,
                 if publish_limited_velocity_' s2 \<and> limited_velocity_trylock inp then
                   s2 \<lparr> limited_velocity_command := limited \<lparr> stamp := current_time inp \<rparr> \<rparr>
                 else s2)))"

section \<open>Writing the setpoints\<close>

text \<open>The loop over the steered wheels of each side; \<open>None\<close> is a write past a vector's end.\<close>

function write_wheels :: "controller \<Rightarrow> nat \<Rightarrow> double \<Rightarrow> double \<Rightarrow> controller option" where
  "write_wheels s index vl vr =
     (if index < wheels_per_side (wheel_params_' s) then
        (if index < length (registered_left_wheel_handles_' s)
            \<and> index < length (registered_right_wheel_handles_' s)
         then
           write_wheels
             (s \<lparr> registered_left_wheel_handles_' :=
                    (registered_left_wheel_handles_' s)[index := rads_to_rpm vl],
                  registered_right_wheel_handles_' :=
                    (registered_right_wheel_handles_' s)[index := rads_to_rpm vr] \<rparr>)
             (Suc index) vl vr
         else None)
      else Some s)"
  by pat_completeness auto
termination
  by (relation "measure (\<lambda>(s, index, vl, vr). wheels_per_side (wheel_params_' s) - index)") auto

declare write_wheels.simps [simp del]

text \<open>
  All writes of a tick: the wheels of both sides, the middle pair (right at index 0, left
  at index 1), the front steering (index 0) and the rear steering (index 1).
\<close>

definition write_setpoint :: "controller \<Rightarrow> setpoint \<Rightarrow> controller option" where
  "write_setpoint s sp =
     (case write_wheels s 0 (wheel_velocity_left sp) (wheel_velocity_right sp) of
        None \<Rightarrow> None
      | Some s1 \<Rightarrow>
          (if 1 < length (registered_middle_wheel_handles_' s1)
              \<and> 1 < length (registered_left_steering_handles_' s1)
              \<and> 1 < length (registered_right_steering_handles_' s1)
           then
             Some (s1
               \<lparr> registered_middle_wheel_handles_' :=
                   (registered_middle_wheel_handles_' s1)
                     [0 := rads_to_rpm (wheel_velocity_mid_right sp),
                      1 := rads_to_rpm (wheel_velocity_mid_left sp)],
                 registered_left_steering_handles_' :=
                   (registered_left_steering_handles_' s1)
                     [0 := steering_angle_left sp, 1 := dneg (steering_angle_left sp)],
                 registered_right_steering_handles_' :=
                   (registered_right_steering_handles_' s1)
                     [0 := dneg (steering_angle_right sp), 1 := steering_angle_right sp] \<rparr>)
           else None))"

section \<open>The control tick\<close>

text \<open>
  \<^verbatim>\<open>Ack6WDController::update\<close>. The steps run in the order of the source: halt when
  inactive; fetch the command and brake on timeout; refuse a turn at zero speed; update the
  odometry; publish; limit the command; solve the kinematics; write the setpoints.
\<close>

definition update :: "collaborators \<Rightarrow> tick_input \<Rightarrow> controller \<Rightarrow> return_type \<times> controller" where
  "update c inp s =
     (if current_state s = PRIMARY_STATE_INACTIVE then
        (OK, if \<not> is_halted s then (halt s) \<lparr> is_halted := True \<rparr> else s)
      else
        (case received_velocity_msg_ptr_' s of
           None \<Rightarrow> (ERROR NullVelocityMessage, s)
         | Some last_msg \<Rightarrow>
             (let s1 = brake_on_timeout (current_time inp) last_msg s;
                  command = twist_store s1 last_msg;
                  g = apply_multipliers (wheel_params_' s1)
              in if \<not> deq (angular_z command) (Fin 0) \<and> deq (linear_x command) (Fin 0) then
                   (ERROR TurningRadiusTooShort, s1)
                 else
                   (case update_odometry c (current_time inp) command s1 of
                      Inl e \<Rightarrow> (ERROR e, s1)
                    | Inr s2 \<Rightarrow>
                        (case limit_command c inp command (publish_odometry inp s2) of
                           None \<Rightarrow> (ERROR OutOfRange, publish_odometry inp s2)
                         | Some (limited, s3) \<Rightarrow>
                             (case solve c g (linear_x limited) (angular_z limited) of
                                None \<Rightarrow> (ERROR TurningRadiusTooShort, s3)
                              | Some sp \<Rightarrow>
                                  (case write_setpoint s3 sp of
                                     None \<Rightarrow> (ERROR OutOfRange, s3)
                                   | Some s4 \<Rightarrow> (OK, s4))))))))"

section \<open>The formulas of the specification\<close>

text \<open>
  The curved case as the specification words it, in the arithmetic of doubles: the turning
  radius, the steering angle of the axle nearer to and farther from the turn centre, the
  speed of a steered wheel and the speed of a middle wheel.
\<close>

definition spec_turning_radius :: "double \<Rightarrow> double \<Rightarrow> double" where
  "spec_turning_radius lin ang = dabs (ddiv lin ang)"

definition spec_angle_near :: "collaborators \<Rightarrow> double \<Rightarrow> double \<Rightarrow> double \<Rightarrow> double" where
  "spec_angle_near c R b w =
     dsub (ddiv M_PI (Fin 2)) (atan c (ddiv (dsub (dmul (Fin 2) R) b) w))"

definition spec_angle_far :: "collaborators \<Rightarrow> double \<Rightarrow> double \<Rightarrow> double \<Rightarrow> double" where
  "spec_angle_far c R b w =
     dsub (ddiv M_PI (Fin 2)) (atan c (ddiv (dadd (dmul (Fin 2) R) b) w))"

definition spec_steered_speed ::
  "collaborators \<Rightarrow> double \<Rightarrow> double \<Rightarrow> double \<Rightarrow> double \<Rightarrow> double \<Rightarrow> double" where
  "spec_steered_speed c ang w angle r k =
     dmul (dabs (ddiv (dmul ang (ddiv w (dmul (Fin 2) (sine c angle)))) r)) k"

definition spec_middle_speed :: "double \<Rightarrow> double \<Rightarrow> double \<Rightarrow> double \<Rightarrow> double" where
  "spec_middle_speed ang axis r k = dmul (dabs (ddiv (dmul ang axis) r)) k"

text \<open>
  The sign table as an enumeration: for each quadrant the signs of the left steering angle,
  the right steering angle, the left speeds and the right speeds; whether the near targets
  go to the left side; and the setpoint the table gives from the targets.
\<close>

definition sign_table :: "nat \<Rightarrow> int \<times> int \<times> int \<times> int" where
  "sign_table k =
     (if k = 0 then (1, 1, 1, 1)
      else if k = 1 then (- 1, - 1, 1, 1)
      else if k = 2 then (- 1, - 1, - 1, - 1)
      else (1, 1, - 1, - 1))"

definition near_is_left :: "nat \<Rightarrow> bool" where
  "near_is_left k = (k = 0 \<or> k = 3)"

definition table_setpoint :: "geometry \<Rightarrow> nat \<Rightarrow> wheel_targets \<Rightarrow> setpoint" where
  "table_setpoint g k t =
     (case sign_table k of (steer_left, steer_right, speed_left, speed_right) \<Rightarrow>
        \<lparr> steering_angle_left =
            dmul (dmul (of_integer steer_left)
                    (if near_is_left k then angle_left t else angle_right t))
                 (steering_correction g),
          steering_angle_right =
            dmul (dmul (of_integer steer_right)
                    (if near_is_left k then angle_right t else angle_left t))
                 (steering_correction g),
          wheel_velocity_left =
            dmul (of_integer speed_left)
                 (if near_is_left k then velocity_left t else velocity_right t),
          wheel_velocity_right =
            dmul (of_integer speed_right)
                 (if near_is_left k then velocity_right t else velocity_left t),
          wheel_velocity_mid_left =
            dmul (of_integer speed_left)
                 (if near_is_left k then velocity_mid_left t else velocity_mid_right t),
          wheel_velocity_mid_right =
            dmul (of_integer speed_right)
                 (if near_is_left k then velocity_mid_right t else velocity_mid_left t) \<rparr>)"

text \<open>
  The closed-loop reduction as it is described: the mean of the absolute values of a list
  of readings, and the representative velocity and angle with their signs.
\<close>

definition mean_abs :: "double list \<Rightarrow> double" where
  "mean_abs xs = ddiv (foldl dadd (Fin 0) (map dabs xs)) (Fin (real (length xs)))"

definition representative_velocity :: "double list \<Rightarrow> double list \<Rightarrow> nat \<Rightarrow> double" where
  "representative_velocity lefts rights k =
     dmul (dmin (mean_abs lefts) (mean_abs rights)) (of_integer (if k = 0 \<or> k = 1 then 1 else - 1))"

definition representative_angle :: "double list \<Rightarrow> double list \<Rightarrow> nat \<Rightarrow> double" where
  "representative_angle lefts rights k =
     dmul (dmax (mean_abs lefts) (mean_abs rights)) (of_integer (if k = 0 \<or> k = 2 then 1 else - 1))"

text \<open>The errors a tick reports for a reading that is not a number.\<close>

fun invalid_feedback :: "error \<Rightarrow> bool" where
  "invalid_feedback (InvalidWheelVelocity _) = True"
| "invalid_feedback (InvalidSteeringAngle _) = True"
| "invalid_feedback _ = False"

section \<open>Example configurations\<close>

text \<open>
  A vehicle with wheel base 1, wheel separation 1 and wheel radius 1/2, the right radius
  halved by its multiplier; and the geometry these parameters give.
\<close>

definition example_wheels :: wheel_params where
  "example_wheels =
     \<lparr> wheels_per_side = 2, base = Fin 1, separation = Fin 1, radius = Fin (1 / 2),
       base_multiplier = Fin 1, separation_multiplier = Fin 1,
       left_radius_multiplier = Fin 1, right_radius_multiplier = Fin (1 / 2),
       angular_velocity_compensation = Fin 1, steering_angle_correction = Fin 1 \<rparr>"

definition example_geometry :: geometry where
  "example_geometry =
     \<lparr> wheel_base = Fin 1, wheel_separation = Fin 1, left_wheel_radius = Fin (1 / 2),
       right_wheel_radius = Fin (1 / 4), ang_vel_comp = Fin 1, steering_correction = Fin 1 \<rparr>"



text \<open>
  Stand-ins for the C library in the examples: the arctangent and the sine without
  rounding; and an arctangent that is \<^verbatim>\<open>M_PI/2\<close> from \<open>10\<^sup>1\<^sup>6\<close> on, where
  \<^verbatim>\<open>M_PI/2\<close> is the double nearest to the arctangent.
\<close>

fun exact_atan :: "double \<Rightarrow> double" where
  "exact_atan (Fin x) = Fin (arctan x)"
| "exact_atan PInf = ddiv M_PI (Fin 2)"
| "exact_atan NInf = dneg (ddiv M_PI (Fin 2))"
| "exact_atan NaN = NaN"

fun exact_sin :: "double \<Rightarrow> double" where
  "exact_sin (Fin x) = Fin (sin x)"
| "exact_sin _ = NaN"

definition saturating_atan :: "double \<Rightarrow> double" where
  "saturating_atan z = (if dge z (Fin 10000000000000000) then ddiv M_PI (Fin 2) else exact_atan z)"

text \<open>
  Stand-ins for the estimator and the limiter in the examples. The estimator keeps the
  twist (or the encoder pair) it is handed as its velocity estimate, with the time. The
  limiter clamps a velocity to \<open>[- 1, 1]\<close>.
\<close>

definition keep_twist :: "odometry \<Rightarrow> double \<Rightarrow> double \<Rightarrow> int \<Rightarrow> odometry" where
  "keep_twist od lin ang time = od \<lparr> timestamp_' := time, linear_' := lin, angular_' := ang \<rparr>"

definition keep_pair :: "odometry \<Rightarrow> double \<Rightarrow> double \<Rightarrow> int \<Rightarrow> odometry" where
  "keep_pair od angle velocity time =
     od \<lparr> timestamp_' := time, linear_' := velocity, angular_' := angle \<rparr>"

definition clamp_unit :: "double \<Rightarrow> double \<Rightarrow> double \<Rightarrow> double \<Rightarrow> double" where
  "clamp_unit v v0 v1 dt =
     (if dless v (Fin (- 1)) then Fin (- 1) else if dless (Fin 1) v then Fin 1 else v)"

definition example_collaborators :: collaborators where
  "example_collaborators =
     \<lparr> atan = exact_atan, sine = exact_sin,
       updateOpenLoop = keep_twist, updateVel = keep_pair,
       limit_linear = clamp_unit, limit_angular = clamp_unit \<rparr>"

definition rounding_collaborators :: collaborators where
  "rounding_collaborators = example_collaborators \<lparr> atan := saturating_atan \<rparr>"

definition zero_twist :: twist_stamped where
  "zero_twist = \<lparr> stamp = 0, linear_x = Fin 0, angular_z = Fin 0 \<rparr>"

definition zero_odometry :: odometry where
  "zero_odometry =
     \<lparr> timestamp_' = 0, debug_' = Fin 0, x_' = Fin 0, y_' = Fin 0, heading_' = Fin 0,
       linear_' = Fin 0, angular_' = Fin 0, wheel_separation_' = Fin 1, wheel_base_' = Fin 1,
       left_wheel_radius_' = Fin (1 / 2), right_wheel_radius_' = Fin (1 / 2),
       left_wheel_old_pos_' = Fin 0, right_wheel_old_pos_' = Fin 0,
       velocity_rolling_window_size_' = 10, linear_accumulator_' = [],
       angular_accumulator_' = [] \<rparr>"

text \<open>
  An active open-loop controller with two steered wheels and one middle wheel per side,
  holding at address 0 the command (1, 0) stamped at time 0; the timeout is 500 ms.
\<close>

definition example_controller :: controller where
  "example_controller =
     \<lparr> current_state = PRIMARY_STATE_ACTIVE,
       is_halted = False,
       twist_store = (\<lambda>_. \<lparr> stamp = 0, linear_x = Fin 1, angular_z = Fin 0 \<rparr>),
       received_velocity_msg_ptr_' = Some 0,
       cmd_vel_timeout_' = 500,
       wheel_params_' = example_wheels,
       open_loop = True,
       enable_odom_tf = True,
       odometry_' = zero_odometry,
       previous_publish_timestamp_' = 0,
       publish_period_' = 20000000,
       previous_update_timestamp_' = 0,
       previous_commands_' = [zero_twist, zero_twist],
       publish_limited_velocity_' = False,
       odometry_message =
         \<lparr> odom_stamp = 0, position_x = Fin 0, position_y = Fin 0, orientation_yaw = Fin 0,
           twist_linear_x = Fin 0, twist_angular_z = Fin 0 \<rparr>,
       odometry_transform_message =
         \<lparr> tf_stamp = 0, translation_x = Fin 0, translation_y = Fin 0, rotation_yaw = Fin 0 \<rparr>,
       limited_velocity_command = zero_twist,
       registered_left_wheel_handles_' = [Fin 0, Fin 0],
       registered_right_wheel_handles_' = [Fin 0, Fin 0],
       registered_middle_wheel_handles_' = [Fin 0, Fin 0],
       registered_left_steering_handles_' = [Fin 0, Fin 0],
       registered_right_steering_handles_' = [Fin 0, Fin 0] \<rparr>"

text \<open>A tick at a given time, with every publisher available.\<close>

definition tick_at :: "int \<Rightarrow> tick_input" where
  "tick_at now =
     \<lparr> current_time = now, odometry_trylock = True, transform_trylock = True,
       limited_velocity_trylock = True \<rparr>"


definition turning_controller :: controller where
  "turning_controller =
     example_controller
       \<lparr> twist_store := (\<lambda>_. \<lparr> stamp = 0, linear_x = Fin 0, angular_z = Fin 1 \<rparr>) \<rparr>"

definition closed_loop_controller :: controller where
  "closed_loop_controller =
     example_controller
       \<lparr> open_loop := False,
         registered_left_wheel_handles_' := [Fin 60, Fin 30],
         registered_right_wheel_handles_' := [Fin 30, Fin 30],
         registered_left_steering_handles_' := [Fin (1 / 4), Fin (- (1 / 4))],
         registered_right_steering_handles_' := [Fin (- (1 / 8)), Fin (1 / 8)] \<rparr>"

definition infinite_reading_controller :: controller where
  "infinite_reading_controller =
     closed_loop_controller \<lparr> registered_left_steering_handles_' := [PInf, Fin 0] \<rparr>"

definition nan_reading_controller :: controller where
  "nan_reading_controller =
     closed_loop_controller \<lparr> registered_right_wheel_handles_' := [Fin 30, NaN] \<rparr>"

section \<open>Arithmetic of doubles\<close>

lemma dmul_one [simp]: "dmul (Fin 1) X = X"
  by (cases X) (simp_all add: inf_of_sign_def)

lemma dmul_one_right [simp]: "dmul X (Fin 1) = X"
  by (cases X) (simp_all add: inf_of_sign_def)

lemma dmul_minus_one [simp]: "dmul (Fin (- 1)) X = dneg X"
  by (cases X) (simp_all add: inf_of_sign_def)

lemma dabs_dneg [simp]: "dabs (dneg Z) = dabs Z"
  by (cases Z) simp_all

lemma dneg_dneg [simp]: "dneg (dneg Z) = Z"
  by (cases Z) simp_all

lemma inf_of_sign_minus: "inf_of_sign (- x) = dneg (inf_of_sign x)"
  by (simp add: inf_of_sign_def)

lemma dmul_Fin_minus: "dmul (Fin (- a)) X = dneg (dmul (Fin a) X)"
  by (cases X) (simp_all add: inf_of_sign_minus)

lemma dmul_dneg_left: "dmul (dneg X) Y = dneg (dmul X Y)"
  by (cases X; cases Y) (simp_all add: inf_of_sign_minus)

lemma ddiv_dneg: "ddiv (dneg Y) R = dneg (ddiv Y R)"
  by (cases Y; cases R) (simp_all add: inf_of_sign_minus)

lemma deq_Fin [simp]: "deq (Fin x) (Fin y) = (x = y)"
  by (simp add: deq_def)

lemma quadrant_Fin:
  "quadrant (Fin l) (Fin a) = (if 0 < l then (if 0 \<le> a then 0 else 1) else (if 0 < a then 2 else 3))"
  by (auto simp: quadrant_def dgt_def dge_def)

lemma quadrant_mirror:
  "l \<noteq> 0 \<Longrightarrow> a \<noteq> 0 \<Longrightarrow> quadrant (Fin (- l)) (Fin (- a)) = 3 - quadrant (Fin l) (Fin a)"
  by (auto simp: quadrant_Fin)

lemma quadrant_less_4: "quadrant x y < 4"
  by (simp add: quadrant_def)

lemma wheel_targets_of_mirror:
  assumes "l \<noteq> 0" "a \<noteq> 0"
  shows "wheel_targets_of c g (Fin (- l)) (Fin (- a)) = wheel_targets_of c g (Fin l) (Fin a)"
  using assms
  by (simp add: wheel_targets_of_def Let_def dmul_Fin_minus ddiv_dneg)

lemma wheel_targets_of_curved_some:
  assumes "\<not> deq ang (Fin 0)" "\<not> deq lin (Fin 0)"
  shows "\<exists>t. wheel_targets_of c g lin ang = Some t"
  using assms by (simp add: wheel_targets_of_def Let_def)

text \<open>The absolute value of a product or quotient does not see the sign of an operand.\<close>

lemma dabs_dmul_dabs: "dabs (dmul A (dabs X)) = dabs (dmul A X)"
  by (cases A; cases X) (auto simp: inf_of_sign_def abs_mult)

lemma dabs_ddiv_dabs: "dabs (ddiv (dabs Y) R) = dabs (ddiv Y R)"
  by (cases Y; cases R) (auto simp: inf_of_sign_def)

lemma dabs_dabs [simp]: "dabs (dabs X) = dabs X"
  by (cases X) simp_all

lemma dabs_quotient_of_axis:
  "dabs (ddiv (dmul A (dabs X)) R) = dabs (ddiv (dmul A X) R)"
proof -
  have "dabs (ddiv (dmul A (dabs X)) R) = dabs (ddiv (dabs (dmul A (dabs X))) R)"
    by (simp add: dabs_ddiv_dabs)
  also have "\<dots> = dabs (ddiv (dabs (dmul A X)) R)"
    by (simp add: dabs_dmul_dabs)
  also have "\<dots> = dabs (ddiv (dmul A X) R)"
    by (simp add: dabs_ddiv_dabs)
  finally show ?thesis .
qed


section \<open>Properties of the solver\<close>

text \<open>
  Claim C4, as stated, at the reverse command (- 1, 0) on the example vehicle: the solver
  gives the left wheels the speed - 2 and the right wheels - 4, while |linear| divided by
  the radius of the side is 2 and 4.
\<close>

theorem reverse_straight_speed_is_negative:
  "solve example_collaborators (apply_multipliers example_wheels) (Fin (- 1)) (Fin 0) =
     Some \<lparr> steering_angle_left = Fin 0, steering_angle_right = Fin 0,
            wheel_velocity_left = Fin (- 2), wheel_velocity_right = Fin (- 4),
            wheel_velocity_mid_left = Fin (- 2), wheel_velocity_mid_right = Fin (- 4) \<rparr>
   \<and> dabs (ddiv (Fin (- 1)) (left_wheel_radius (apply_multipliers example_wheels))) = Fin 2
   \<and> dabs (ddiv (Fin (- 1)) (right_wheel_radius (apply_multipliers example_wheels))) = Fin 4"
  by (simp add: solve_def wheel_targets_of_def example_wheels_def apply_multipliers_def
      quadrant_Fin apply_direction_def d_def of_integer_def)

text \<open>
  Claim C4, amended. For every finite command with angular velocity 0, on a vehicle whose
  effective wheel radii (the radius times the radius multiplier of the side) are positive
  and whose steering correction is finite, both steering angles are 0 (so are the four
  values written from them, which are these and their negations), and the wheel speeds of
  a side, the middle wheel included, are |linear| divided by the effective radius of that
  side when linear is positive and the negation of that otherwise.
\<close>

theorem straight_line_setpoint:
  assumes "radius wheels = Fin r"
    and "left_radius_multiplier wheels = Fin ml"
    and "right_radius_multiplier wheels = Fin mr"
    and "0 < ml * r" and "0 < mr * r"
    and "steering_angle_correction wheels = Fin cr"
  shows "solve c (apply_multipliers wheels) (Fin l) (Fin 0) =
         Some \<lparr> steering_angle_left = Fin 0, steering_angle_right = Fin 0,
                wheel_velocity_left = Fin ((if 0 < l then 1 else - 1) * (\<bar>l\<bar> / (ml * r))),
                wheel_velocity_right = Fin ((if 0 < l then 1 else - 1) * (\<bar>l\<bar> / (mr * r))),
                wheel_velocity_mid_left = Fin ((if 0 < l then 1 else - 1) * (\<bar>l\<bar> / (ml * r))),
                wheel_velocity_mid_right = Fin ((if 0 < l then 1 else - 1) * (\<bar>l\<bar> / (mr * r))) \<rparr>"
proof -
  from assms(4,5) have nz: "ml \<noteq> 0" "mr \<noteq> 0" "r \<noteq> 0"
    by auto
  have ab: "\<bar>ml\<bar> * \<bar>r\<bar> = ml * r" "\<bar>mr\<bar> * \<bar>r\<bar> = mr * r"
    using abs_of_pos [OF assms(4)] abs_of_pos [OF assms(5)] by (simp_all add: abs_mult)
  from assms(1-3,6) nz show ?thesis
    by (simp add: solve_def wheel_targets_of_def apply_multipliers_def quadrant_Fin
        apply_direction_def d_def of_integer_def abs_mult ab)
qed

text \<open>
  The straight-line result at the forward command (3, 0) on the example vehicle.
\<close>

theorem straight_line_setpoint_witness:
  "radius example_wheels = Fin (1 / 2)
   \<and> left_radius_multiplier example_wheels = Fin 1
   \<and> right_radius_multiplier example_wheels = Fin (1 / 2)
   \<and> steering_angle_correction example_wheels = Fin 1
   \<and> (0::real) < 1 * (1 / 2) \<and> (0::real) < 1 / 2 * (1 / 2)
   \<and> solve example_collaborators (apply_multipliers example_wheels) (Fin 3) (Fin 0) =
       Some \<lparr> steering_angle_left = Fin 0, steering_angle_right = Fin 0,
              wheel_velocity_left = Fin 6, wheel_velocity_right = Fin 12,
              wheel_velocity_mid_left = Fin 6, wheel_velocity_mid_right = Fin 12 \<rparr>"
proof -
  have h: "radius example_wheels = Fin (1 / 2)"
    "left_radius_multiplier example_wheels = Fin 1"
    "right_radius_multiplier example_wheels = Fin (1 / 2)"
    "steering_angle_correction example_wheels = Fin 1"
    by (simp_all add: example_wheels_def)
  from straight_line_setpoint [OF h(1,2,3) _ _ h(4), of example_collaborators 3] h show ?thesis
    by simp
qed

text \<open>
  Claim C5. For every command in the curved case (linear and angular velocity both
  different from zero) and every geometry, whatever the library's \<^verbatim>\<open>atan\<close> and
  \<^verbatim>\<open>sin\<close> return: the targets the solver computes before the direction matrix are
  the formulas of the specification evaluated in the arithmetic of doubles, with the
  turning radius |linear / angular|; the steering angles are M_PI/2 - atan((2 R - base) /
  separation) and the same with 2 R + base; a steered wheel turns at |angular *
  (separation / (2 sin(angle))) / radius| times the compensation; a middle wheel at
  |angular * (R - base) / radius| on the left and with R + base on the right, times the
  compensation; and each final steering angle is an angle of the pair, with its sign,
  times the steering angle correction. Nothing is said here of the values being finite.
\<close>

theorem curved_case_formulas:
  assumes "\<not> deq ang (Fin 0)" and "\<not> deq lin (Fin 0)"
  shows
    "(let R = spec_turning_radius lin ang;
          near = spec_angle_near c R (wheel_base g) (wheel_separation g);
          far = spec_angle_far c R (wheel_base g) (wheel_separation g);
          Q = quadrant lin ang
      in wheel_targets_of c g lin ang =
           Some \<lparr> angle_left = near,
                  angle_right = far,
                  velocity_left =
                    spec_steered_speed c ang (wheel_separation g) near (left_wheel_radius g)
                      (ang_vel_comp g),
                  velocity_right =
                    spec_steered_speed c ang (wheel_separation g) far (right_wheel_radius g)
                      (ang_vel_comp g),
                  velocity_mid_left =
                    spec_middle_speed ang (dsub R (wheel_base g)) (left_wheel_radius g)
                      (ang_vel_comp g),
                  velocity_mid_right =
                    spec_middle_speed ang (dadd R (wheel_base g)) (right_wheel_radius g)
                      (ang_vel_comp g) \<rparr>
         \<and> map_option steering_angle_left (solve c g lin ang) =
             Some (dmul (dmul (of_integer (d ! Q ! 0)) (if Q = 0 \<or> Q = 3 then near else far))
                        (steering_correction g))
         \<and> map_option steering_angle_right (solve c g lin ang) =
             Some (dmul (dmul (of_integer (d ! Q ! 1)) (if Q = 0 \<or> Q = 3 then far else near))
                        (steering_correction g)))"
  using assms
  by (simp add: Let_def solve_def wheel_targets_of_def apply_direction_def
      spec_turning_radius_def spec_angle_near_def spec_angle_far_def spec_steered_speed_def
      spec_middle_speed_def dabs_quotient_of_axis)

text \<open>
  The curved case at the command (1, 1/2) on the example vehicle: turning radius 2,
  quadrant 0.
\<close>

theorem curved_case_formulas_witness:
  "\<not> deq (Fin (1 / 2)) (Fin 0) \<and> \<not> deq (Fin 1) (Fin 0) \<and>
   spec_turning_radius (Fin 1) (Fin (1 / 2)) = Fin 2 \<and>
   quadrant (Fin 1) (Fin (1 / 2)) = 0 \<and>
   wheel_targets_of example_collaborators example_geometry (Fin 1) (Fin (1 / 2)) =
     Some \<lparr> angle_left = spec_angle_near example_collaborators (Fin 2) (Fin 1) (Fin 1),
            angle_right = spec_angle_far example_collaborators (Fin 2) (Fin 1) (Fin 1),
            velocity_left =
              spec_steered_speed example_collaborators (Fin (1 / 2)) (Fin 1)
                (spec_angle_near example_collaborators (Fin 2) (Fin 1) (Fin 1)) (Fin (1 / 2)) (Fin 1),
            velocity_right =
              spec_steered_speed example_collaborators (Fin (1 / 2)) (Fin 1)
                (spec_angle_far example_collaborators (Fin 2) (Fin 1) (Fin 1)) (Fin (1 / 4)) (Fin 1),
            velocity_mid_left = spec_middle_speed (Fin (1 / 2)) (Fin 1) (Fin (1 / 2)) (Fin 1),
            velocity_mid_right = spec_middle_speed (Fin (1 / 2)) (Fin 3) (Fin (1 / 4)) (Fin 1) \<rparr>
   \<and> map_option steering_angle_left
        (solve example_collaborators example_geometry (Fin 1) (Fin (1 / 2))) =
       Some (spec_angle_near example_collaborators (Fin 2) (Fin 1) (Fin 1))
   \<and> map_option steering_angle_right
        (solve example_collaborators example_geometry (Fin 1) (Fin (1 / 2))) =
       Some (spec_angle_far example_collaborators (Fin 2) (Fin 1) (Fin 1))"
proof -
  have h: "\<not> deq (Fin (1 / 2)) (Fin 0)" "\<not> deq (Fin 1) (Fin 0)"
    by simp_all
  have R: "spec_turning_radius (Fin 1) (Fin (1 / 2)) = Fin 2"
    by (simp add: spec_turning_radius_def)
  have Q: "quadrant (Fin 1) (Fin (1 / 2)) = 0"
    by (simp add: quadrant_Fin)
  have g: "wheel_base example_geometry = Fin 1" "wheel_separation example_geometry = Fin 1"
    "left_wheel_radius example_geometry = Fin (1 / 2)"
    "right_wheel_radius example_geometry = Fin (1 / 4)"
    "ang_vel_comp example_geometry = Fin 1" "steering_correction example_geometry = Fin 1"
    by (simp_all add: example_geometry_def)
  have m: "dsub (Fin 2) (Fin 1) = Fin 1" "dadd (Fin 2) (Fin 1) = Fin 3"
    by (simp_all add: dsub_def)
  from curved_case_formulas [OF h, of example_collaborators example_geometry] h R Q
  show ?thesis
    by (simp add: Let_def R Q g m d_def of_integer_def)
qed

lemma sign_table_matches_d:
  "k < 4 \<Longrightarrow> sign_table k = (d ! k ! 0, d ! k ! 1, d ! k ! 2, d ! k ! 3)"
proof -
  assume "k < 4"
  then consider "k = 0" | "k = 1" | "k = 2" | "k = 3" by linarith
  then show ?thesis
    by cases (simp_all add: sign_table_def d_def)
qed

lemma apply_direction_is_table:
  "k < 4 \<Longrightarrow> apply_direction g k t = table_setpoint g k t"
  by (simp add: apply_direction_def table_setpoint_def sign_table_matches_d near_is_left_def)

lemma table_setpoint_mirror:
  assumes "k < 4"
  shows "steering_angle_left (table_setpoint g (3 - k) t) = steering_angle_left (table_setpoint g k t)"
    and "steering_angle_right (table_setpoint g (3 - k) t) = steering_angle_right (table_setpoint g k t)"
    and "wheel_velocity_left (table_setpoint g (3 - k) t) = dneg (wheel_velocity_left (table_setpoint g k t))"
    and "wheel_velocity_right (table_setpoint g (3 - k) t) = dneg (wheel_velocity_right (table_setpoint g k t))"
    and "wheel_velocity_mid_left (table_setpoint g (3 - k) t)
         = dneg (wheel_velocity_mid_left (table_setpoint g k t))"
    and "wheel_velocity_mid_right (table_setpoint g (3 - k) t)
         = dneg (wheel_velocity_mid_right (table_setpoint g k t))"
proof -
  from assms consider "k = 0" | "k = 1" | "k = 2" | "k = 3" by linarith
  then have "steering_angle_left (table_setpoint g (3 - k) t) = steering_angle_left (table_setpoint g k t)
    \<and> steering_angle_right (table_setpoint g (3 - k) t) = steering_angle_right (table_setpoint g k t)
    \<and> wheel_velocity_left (table_setpoint g (3 - k) t) = dneg (wheel_velocity_left (table_setpoint g k t))
    \<and> wheel_velocity_right (table_setpoint g (3 - k) t) = dneg (wheel_velocity_right (table_setpoint g k t))
    \<and> wheel_velocity_mid_left (table_setpoint g (3 - k) t)
         = dneg (wheel_velocity_mid_left (table_setpoint g k t))
    \<and> wheel_velocity_mid_right (table_setpoint g (3 - k) t)
         = dneg (wheel_velocity_mid_right (table_setpoint g k t))"
    by cases (simp_all add: table_setpoint_def sign_table_def near_is_left_def of_integer_def)
  then show "steering_angle_left (table_setpoint g (3 - k) t) = steering_angle_left (table_setpoint g k t)"
    and "steering_angle_right (table_setpoint g (3 - k) t) = steering_angle_right (table_setpoint g k t)"
    and "wheel_velocity_left (table_setpoint g (3 - k) t) = dneg (wheel_velocity_left (table_setpoint g k t))"
    and "wheel_velocity_right (table_setpoint g (3 - k) t) = dneg (wheel_velocity_right (table_setpoint g k t))"
    and "wheel_velocity_mid_left (table_setpoint g (3 - k) t)
         = dneg (wheel_velocity_mid_left (table_setpoint g k t))"
    and "wheel_velocity_mid_right (table_setpoint g (3 - k) t)
         = dneg (wheel_velocity_mid_right (table_setpoint g k t))"
    by simp_all
qed

text \<open>
  Claim C6. For every finite command with linear and angular velocity both non-zero, every
  geometry and every library: the solver returns a setpoint for the command and one for
  its opposite (- linear, - angular), from the same targets; the command lies in quadrant
  0, 1, 2 or 3 by the signs of its components and its opposite in quadrant 3 minus that
  (0 and 3, 1 and 2 exchange); each setpoint is the one the sign table gives for its
  quadrant, with the near targets on the left in quadrants 0 and 3 and on the right in
  quadrants 1 and 2; and the opposite command has the same two steering angles and the
  negated wheel speeds, left, right and middle.
\<close>

theorem quadrant_symmetry:
  assumes "l \<noteq> 0" and "a \<noteq> 0"
  shows "\<exists>t sp sp'.
           wheel_targets_of c g (Fin l) (Fin a) = Some t
         \<and> wheel_targets_of c g (Fin (- l)) (Fin (- a)) = Some t
         \<and> solve c g (Fin l) (Fin a) = Some sp
         \<and> solve c g (Fin (- l)) (Fin (- a)) = Some sp'
         \<and> quadrant (Fin l) (Fin a) = (if 0 < l then if 0 < a then 0 else 1 else if 0 < a then 2 else 3)
         \<and> quadrant (Fin (- l)) (Fin (- a)) = 3 - quadrant (Fin l) (Fin a)
         \<and> sp = table_setpoint g (quadrant (Fin l) (Fin a)) t
         \<and> sp' = table_setpoint g (3 - quadrant (Fin l) (Fin a)) t
         \<and> steering_angle_left sp' = steering_angle_left sp
         \<and> steering_angle_right sp' = steering_angle_right sp
         \<and> wheel_velocity_left sp' = dneg (wheel_velocity_left sp)
         \<and> wheel_velocity_right sp' = dneg (wheel_velocity_right sp)
         \<and> wheel_velocity_mid_left sp' = dneg (wheel_velocity_mid_left sp)
         \<and> wheel_velocity_mid_right sp' = dneg (wheel_velocity_mid_right sp)"
proof -
  from assms obtain t where t: "wheel_targets_of c g (Fin l) (Fin a) = Some t"
    using wheel_targets_of_curved_some [of "Fin a" "Fin l" c g] by auto
  have t': "wheel_targets_of c g (Fin (- l)) (Fin (- a)) = Some t"
    using wheel_targets_of_mirror [OF assms] t by simp
  let ?k = "quadrant (Fin l) (Fin a)"
  have k: "?k < 4" by (rule quadrant_less_4)
  have k3: "3 - ?k < 4" by simp
  have q: "?k = (if 0 < l then if 0 < a then 0 else 1 else if 0 < a then 2 else 3)"
    using assms by (auto simp: quadrant_Fin)
  have q': "quadrant (Fin (- l)) (Fin (- a)) = 3 - ?k"
    by (rule quadrant_mirror [OF assms])
  have s: "solve c g (Fin l) (Fin a) = Some (table_setpoint g ?k t)"
    by (simp add: solve_def t apply_direction_is_table [OF k])
  have s': "solve c g (Fin (- l)) (Fin (- a)) = Some (table_setpoint g (3 - ?k) t)"
    by (simp add: solve_def t' q' apply_direction_is_table [OF k3])
  show ?thesis
    using t t' s s' q q' table_setpoint_mirror [OF k, of g t] by blast
qed

text \<open>
  The commands (1, - 1/2) in quadrant 1 and (- 1, 1/2) in quadrant 2 on the example
  vehicle: in both the left outputs come from the right targets, the steering angles are
  negated, and the speeds of the second are the negated speeds of the first.
\<close>

theorem quadrant_symmetry_witness:
  "(1::real) \<noteq> 0 \<and> (- (1 / 2) :: real) \<noteq> 0 \<and>
   (\<exists>t. wheel_targets_of example_collaborators example_geometry (Fin 1) (Fin (- (1 / 2))) = Some t
      \<and> wheel_targets_of example_collaborators example_geometry (Fin (- 1)) (Fin (1 / 2)) = Some t
      \<and> quadrant (Fin 1) (Fin (- (1 / 2))) = 1
      \<and> quadrant (Fin (- 1)) (Fin (1 / 2)) = 2
      \<and> solve example_collaborators example_geometry (Fin 1) (Fin (- (1 / 2))) =
          Some \<lparr> steering_angle_left = dneg (angle_right t),
                 steering_angle_right = dneg (angle_left t),
                 wheel_velocity_left = velocity_right t,
                 wheel_velocity_right = velocity_left t,
                 wheel_velocity_mid_left = velocity_mid_right t,
                 wheel_velocity_mid_right = velocity_mid_left t \<rparr>
      \<and> solve example_collaborators example_geometry (Fin (- 1)) (Fin (1 / 2)) =
          Some \<lparr> steering_angle_left = dneg (angle_right t),
                 steering_angle_right = dneg (angle_left t),
                 wheel_velocity_left = dneg (velocity_right t),
                 wheel_velocity_right = dneg (velocity_left t),
                 wheel_velocity_mid_left = dneg (velocity_mid_right t),
                 wheel_velocity_mid_right = dneg (velocity_mid_left t) \<rparr>)"
proof -
  have c: "steering_correction example_geometry = Fin 1"
    by (simp add: example_geometry_def)
  from quadrant_symmetry [of 1 "- (1 / 2)" example_collaborators example_geometry]
  obtain t where
    "wheel_targets_of example_collaborators example_geometry (Fin 1) (Fin (- (1 / 2))) = Some t"
    "wheel_targets_of example_collaborators example_geometry (Fin (- 1)) (Fin (- (- (1 / 2)))) = Some t"
    "solve example_collaborators example_geometry (Fin 1) (Fin (- (1 / 2)))
       = Some (table_setpoint example_geometry (quadrant (Fin 1) (Fin (- (1 / 2)))) t)"
    "solve example_collaborators example_geometry (Fin (- 1)) (Fin (- (- (1 / 2))))
       = Some (table_setpoint example_geometry (3 - quadrant (Fin 1) (Fin (- (1 / 2)))) t)"
    by auto
  then show ?thesis
    by (simp add: quadrant_Fin table_setpoint_def sign_table_def near_is_left_def of_integer_def c)
qed





lemma not_finite_dmul: "\<not> is_finite X \<Longrightarrow> \<not> is_finite (dmul X K)"
  by (cases X; cases K) (simp_all add: inf_of_sign_def)

lemma not_finite_dabs: "\<not> is_finite X \<Longrightarrow> \<not> is_finite (dabs X)"
  by (cases X) simp_all

lemma not_finite_ddiv: "\<not> is_finite X \<Longrightarrow> \<not> is_finite (ddiv X R)"
  by (cases X; cases R) simp_all

text \<open>
  More generally, for any geometry with a finite non-zero wheel separation: when the sine
  of the near steering angle comes back zero, the left steered speed is not finite,
  whatever the radius and the compensation.
\<close>

lemma zero_sine_speed_is_infinite:
  assumes "a \<noteq> 0" and "\<not> deq lin (Fin 0)"
    and "wheel_separation g = Fin w" and "w \<noteq> 0"
    and "sine c (spec_angle_near c (spec_turning_radius lin (Fin a)) (wheel_base g)
            (wheel_separation g)) = Fin 0"
  shows "\<exists>t. wheel_targets_of c g lin (Fin a) = Some t \<and> \<not> is_finite (velocity_left t)"
proof -
  have inf: "\<not> is_finite (dmul (Fin a) (dabs (ddiv (Fin w) (dmul (Fin 2) (Fin 0)))))"
    using assms(1,4) by (simp add: inf_of_sign_def)
  have "\<not> is_finite (dmul (dabs (ddiv (dmul (Fin a)
      (dabs (ddiv (Fin w) (dmul (Fin 2) (Fin 0))))) (left_wheel_radius g))) (ang_vel_comp g))"
    by (rule not_finite_dmul [OF not_finite_dabs [OF not_finite_ddiv [OF inf]]])
  with assms show ?thesis
    by (simp add: wheel_targets_of_def Let_def spec_angle_near_def spec_turning_radius_def)
qed

text \<open>
  The sine does come back zero. On the example vehicle, whose separation and radii are not
  zero, with an arctangent rounded to M_PI/2 from \<open>10\<^sup>1\<^sup>6\<close> on, the command
  (1, \<open>10\<^sup>-\<^sup>1\<^sup>6\<close>) gives both steering angles exactly 0 and both steered speeds
  infinite.
\<close>

lemma gentle_turn_speed_is_infinite:
  "wheel_targets_of rounding_collaborators example_geometry (Fin 1) (Fin (1 / 10000000000000000)) =
     Some \<lparr> angle_left = Fin 0, angle_right = Fin 0,
            velocity_left = PInf, velocity_right = PInf,
            velocity_mid_left = Fin (9999999999999999 / 5000000000000000),
            velocity_mid_right = Fin (10000000000000001 / 2500000000000000) \<rparr>"
  by (simp add: wheel_targets_of_def Let_def example_geometry_def rounding_collaborators_def
      example_collaborators_def saturating_atan_def dge_def dgt_def dsub_def M_PI_def
      inf_of_sign_def)

section \<open>What each step of a tick leaves alone\<close>

lemma write_wheels_keeps:
  "write_wheels s index vl vr = Some s' \<Longrightarrow>
     twist_store s' = twist_store s \<and> odometry_' s' = odometry_' s
     \<and> previous_commands_' s' = previous_commands_' s"
proof (induction s index vl vr rule: write_wheels.induct)
  case (1 s index vl vr)
  show ?case
  proof (cases "index < wheels_per_side (wheel_params_' s)")
    case False
    with "1.prems" show ?thesis by (simp add: write_wheels.simps)
  next
    case True
    with "1.prems" "1.IH" show ?thesis
      by (subst (asm) write_wheels.simps) (auto split: if_splits)
  qed
qed

lemma write_setpoint_keeps:
  "write_setpoint s sp = Some s' \<Longrightarrow>
     twist_store s' = twist_store s \<and> odometry_' s' = odometry_' s
     \<and> previous_commands_' s' = previous_commands_' s"
  by (auto simp: write_setpoint_def split: option.splits if_splits dest: write_wheels_keeps)

lemma limit_command_keeps:
  "limit_command c inp command s = Some (limited, s') \<Longrightarrow>
     twist_store s' = twist_store s \<and> odometry_' s' = odometry_' s"
  by (auto simp: limit_command_def Let_def split: if_splits)


lemma publish_odometry_keeps:
  "twist_store (publish_odometry inp s) = twist_store s"
  "odometry_' (publish_odometry inp s) = odometry_' s"
  "previous_commands_' (publish_odometry inp s) = previous_commands_' s"
  "previous_update_timestamp_' (publish_odometry inp s) = previous_update_timestamp_' s"
  by (simp_all add: publish_odometry_def Let_def)

lemma update_odometry_keeps:
  "update_odometry c now command s = Inr s' \<Longrightarrow>
     twist_store s' = twist_store s \<and> previous_commands_' s' = previous_commands_' s
     \<and> previous_update_timestamp_' s' = previous_update_timestamp_' s"
  by (auto simp: update_odometry_def split: if_splits sum.splits)

lemma brake_on_timeout_keeps:
  "odometry_' (brake_on_timeout now p s) = odometry_' s"
  "previous_commands_' (brake_on_timeout now p s) = previous_commands_' s"
  "previous_update_timestamp_' (brake_on_timeout now p s) = previous_update_timestamp_' s"
  "open_loop (brake_on_timeout now p s) = open_loop s"
  "wheel_params_' (brake_on_timeout now p s) = wheel_params_' s"
  "registered_left_wheel_handles_' (brake_on_timeout now p s) = registered_left_wheel_handles_' s"
  "registered_right_wheel_handles_' (brake_on_timeout now p s) = registered_right_wheel_handles_' s"
  "registered_middle_wheel_handles_' (brake_on_timeout now p s) = registered_middle_wheel_handles_' s"
  "registered_left_steering_handles_' (brake_on_timeout now p s) = registered_left_steering_handles_' s"
  "registered_right_steering_handles_' (brake_on_timeout now p s) = registered_right_steering_handles_' s"
  by (simp_all add: brake_on_timeout_def)

lemma update_twist_store:
  assumes "current_state s \<noteq> PRIMARY_STATE_INACTIVE"
    and "received_velocity_msg_ptr_' s = Some p"
  shows "twist_store (snd (update c inp s)) = twist_store (brake_on_timeout (current_time inp) p s)"
  using assms
  by (auto simp: update_def Let_def publish_odometry_keeps
      split: sum.splits option.splits prod.splits
      dest!: update_odometry_keeps limit_command_keeps write_setpoint_keeps)

lemma update_open_loop_odometry:
  assumes "current_state s \<noteq> PRIMARY_STATE_INACTIVE"
    and "received_velocity_msg_ptr_' s = Some p"
    and "open_loop s"
    and "\<not> (\<not> deq (angular_z (twist_store (brake_on_timeout (current_time inp) p s) p)) (Fin 0)
            \<and> deq (linear_x (twist_store (brake_on_timeout (current_time inp) p s) p)) (Fin 0))"
  shows "odometry_' (snd (update c inp s)) =
         updateOpenLoop c (odometry_' s)
           (linear_x (twist_store (brake_on_timeout (current_time inp) p s) p))
           (angular_z (twist_store (brake_on_timeout (current_time inp) p s) p))
           (current_time inp)"
  using assms
  by (auto simp: update_def Let_def publish_odometry_keeps update_odometry_def
      brake_on_timeout_keeps
      split: sum.splits option.splits prod.splits
      dest!: limit_command_keeps write_setpoint_keeps)

section \<open>Properties of the tick\<close>

lemma brake_on_timeout_stale:
  assumes "current_time inp - stamp (twist_store s p) > cmd_vel_timeout_' s * 1000000"
  shows "brake_on_timeout (current_time inp) p s =
         s \<lparr> twist_store := (twist_store s)
               (p := (twist_store s p) \<lparr> linear_x := Fin 0, angular_z := Fin 0 \<rparr>) \<rparr>"
  using assms by (simp add: brake_on_timeout_def)

lemma brake_on_timeout_idem:
  "brake_on_timeout now p (brake_on_timeout now p s) = brake_on_timeout now p s"
  by (simp add: brake_on_timeout_def)

lemma update_after_brake:
  assumes "current_state s \<noteq> PRIMARY_STATE_INACTIVE"
    and "received_velocity_msg_ptr_' s = Some p"
  shows "update c inp (brake_on_timeout (current_time inp) p s) = update c inp s"
proof -
  have "current_state (brake_on_timeout (current_time inp) p s) = current_state s"
    and "received_velocity_msg_ptr_' (brake_on_timeout (current_time inp) p s)
         = received_velocity_msg_ptr_' s"
    by (simp_all add: brake_on_timeout_def)
  with assms show ?thesis
    by (simp add: update_def brake_on_timeout_idem)
qed

text \<open>
  Claim C1, as stated, on the example controller at a tick one second after the stamp of
  its command: the stored command (1, 0) is older than the timeout of 500 ms, and after
  the tick the stored command is (0, 0).
\<close>

theorem stale_command_overwrites_store:
  "twist_store example_controller 0 = \<lparr> stamp = 0, linear_x = Fin 1, angular_z = Fin 0 \<rparr>
   \<and> current_time (tick_at 1000000000) - stamp (twist_store example_controller 0)
       > cmd_vel_timeout_' example_controller * 1000000
   \<and> twist_store (snd (update example_collaborators (tick_at 1000000000) example_controller)) 0
       = \<lparr> stamp = 0, linear_x = Fin 0, angular_z = Fin 0 \<rparr>"
proof -
  have "current_state example_controller \<noteq> PRIMARY_STATE_INACTIVE"
    and "received_velocity_msg_ptr_' example_controller = Some 0"
    by (simp_all add: example_controller_def example_wheels_def)
  from update_twist_store [OF this] show ?thesis
    by (simp add: brake_on_timeout_def example_controller_def example_wheels_def tick_at_def)
qed

text \<open>
  Claim C1, amended. When an active controller holds a command older than the timeout, the
  tick runs exactly as it would on a stored command with zero linear and angular velocity
  (in open loop the estimator is handed the twist (0, 0)), and the override is written
  into the stored command: after the tick it holds zero linear and angular velocity
  under its old stamp.
\<close>

theorem stale_command_is_zeroed:
  assumes "current_state s \<noteq> PRIMARY_STATE_INACTIVE"
    and "received_velocity_msg_ptr_' s = Some p"
    and "current_time inp - stamp (twist_store s p) > cmd_vel_timeout_' s * 1000000"
  shows "update c inp s =
           update c inp
             (s \<lparr> twist_store := (twist_store s)
                    (p := (twist_store s p) \<lparr> linear_x := Fin 0, angular_z := Fin 0 \<rparr>) \<rparr>)
       \<and> twist_store (snd (update c inp s)) =
           (twist_store s) (p := (twist_store s p) \<lparr> linear_x := Fin 0, angular_z := Fin 0 \<rparr>)
       \<and> (open_loop s \<longrightarrow>
            odometry_' (snd (update c inp s)) =
              updateOpenLoop c (odometry_' s) (Fin 0) (Fin 0) (current_time inp))"
proof -
  note stale = brake_on_timeout_stale [OF assms(3)]
  have "update c inp s = update c inp (brake_on_timeout (current_time inp) p s)"
    using update_after_brake [OF assms(1,2)] by simp
  moreover have "twist_store (snd (update c inp s)) =
      twist_store (brake_on_timeout (current_time inp) p s)"
    by (rule update_twist_store [OF assms(1,2)])
  moreover have "odometry_' (snd (update c inp s)) =
      updateOpenLoop c (odometry_' s) (Fin 0) (Fin 0) (current_time inp)" if "open_loop s"
    using update_open_loop_odometry [OF assms(1,2) that, of inp c] by (simp add: stale)
  ultimately show ?thesis by (simp add: stale)
qed

text \<open>
  The stale example at a tick one second after the stamp.
\<close>

theorem stale_command_is_zeroed_witness:
  "current_state example_controller \<noteq> PRIMARY_STATE_INACTIVE
   \<and> received_velocity_msg_ptr_' example_controller = Some 0
   \<and> current_time (tick_at 1000000000) - stamp (twist_store example_controller 0)
       > cmd_vel_timeout_' example_controller * 1000000
   \<and> open_loop example_controller
   \<and> twist_store (snd (update example_collaborators (tick_at 1000000000) example_controller)) 0
       = \<lparr> stamp = 0, linear_x = Fin 0, angular_z = Fin 0 \<rparr>
   \<and> odometry_' (snd (update example_collaborators (tick_at 1000000000) example_controller))
       = zero_odometry \<lparr> timestamp_' := 1000000000 \<rparr>"
proof -
  have h: "current_state example_controller \<noteq> PRIMARY_STATE_INACTIVE"
    "received_velocity_msg_ptr_' example_controller = Some 0"
    "current_time (tick_at 1000000000) - stamp (twist_store example_controller 0)
       > cmd_vel_timeout_' example_controller * 1000000"
    "open_loop example_controller"
    by (simp_all add: example_controller_def example_wheels_def tick_at_def)
  from stale_command_is_zeroed [OF h(1,2,3), of example_collaborators] h(4)
  have a: "twist_store (snd (update example_collaborators (tick_at 1000000000) example_controller))
      = (twist_store example_controller)
          (0 := (twist_store example_controller 0) \<lparr> linear_x := Fin 0, angular_z := Fin 0 \<rparr>)"
    and b: "odometry_' (snd (update example_collaborators (tick_at 1000000000) example_controller))
      = updateOpenLoop example_collaborators (odometry_' example_controller) (Fin 0) (Fin 0)
          (current_time (tick_at 1000000000))"
    by blast+
  show ?thesis
    unfolding a b using h
    by (simp add: example_controller_def example_wheels_def example_collaborators_def keep_twist_def
        zero_odometry_def tick_at_def)
qed

text \<open>
  Claim C2. When the command an active controller fetches has, after the timeout override,
  a non-zero angular velocity and a zero linear velocity, the tick returns the error
  "turning radius too short" and leaves every wheel velocity and steering position handle
  as it was.
\<close>

theorem turn_at_zero_speed_is_refused:
  assumes "current_state s \<noteq> PRIMARY_STATE_INACTIVE"
    and "received_velocity_msg_ptr_' s = Some p"
    and "\<not> deq (angular_z (twist_store (brake_on_timeout (current_time inp) p s) p)) (Fin 0)"
    and "deq (linear_x (twist_store (brake_on_timeout (current_time inp) p s) p)) (Fin 0)"
  shows "fst (update c inp s) = ERROR TurningRadiusTooShort
       \<and> registered_left_wheel_handles_' (snd (update c inp s)) = registered_left_wheel_handles_' s
       \<and> registered_right_wheel_handles_' (snd (update c inp s)) = registered_right_wheel_handles_' s
       \<and> registered_middle_wheel_handles_' (snd (update c inp s))
           = registered_middle_wheel_handles_' s
       \<and> registered_left_steering_handles_' (snd (update c inp s))
           = registered_left_steering_handles_' s
       \<and> registered_right_steering_handles_' (snd (update c inp s))
           = registered_right_steering_handles_' s"
  using assms by (simp add: update_def Let_def brake_on_timeout_keeps)

text \<open>
  The fresh command (0, 1) at a tick 100 ms after its stamp.
\<close>

theorem turn_at_zero_speed_is_refused_witness:
  "current_state turning_controller \<noteq> PRIMARY_STATE_INACTIVE
   \<and> received_velocity_msg_ptr_' turning_controller = Some 0
   \<and> twist_store (brake_on_timeout (current_time (tick_at 100000000)) 0 turning_controller) 0
       = \<lparr> stamp = 0, linear_x = Fin 0, angular_z = Fin 1 \<rparr>
   \<and> fst (update example_collaborators (tick_at 100000000) turning_controller)
       = ERROR TurningRadiusTooShort
   \<and> registered_left_wheel_handles_'
        (snd (update example_collaborators (tick_at 100000000) turning_controller)) = [Fin 0, Fin 0]
   \<and> registered_left_steering_handles_'
        (snd (update example_collaborators (tick_at 100000000) turning_controller)) = [Fin 0, Fin 0]"
proof -
  have h: "current_state turning_controller \<noteq> PRIMARY_STATE_INACTIVE"
    "received_velocity_msg_ptr_' turning_controller = Some 0"
    "twist_store (brake_on_timeout (current_time (tick_at 100000000)) 0 turning_controller) 0
       = \<lparr> stamp = 0, linear_x = Fin 0, angular_z = Fin 1 \<rparr>"
    by (simp_all add: turning_controller_def example_controller_def example_wheels_def tick_at_def
        brake_on_timeout_def)
  have "\<not> deq (angular_z (twist_store
            (brake_on_timeout (current_time (tick_at 100000000)) 0 turning_controller) 0)) (Fin 0)"
    and "deq (linear_x (twist_store
            (brake_on_timeout (current_time (tick_at 100000000)) 0 turning_controller) 0)) (Fin 0)"
    by (simp_all add: h(3) deq_def)
  from turn_at_zero_speed_is_refused [OF h(1,2) this, of example_collaborators] h show ?thesis
    by (simp add: turning_controller_def example_controller_def example_wheels_def)
qed






section \<open>Properties of the feedback sampling\<close>

lemma isnan_rpm_to_rads [simp]: "isnan (rpm_to_rads x) = isnan x"
  by (cases x) (simp_all add: rpm_to_rads_def inf_of_sign_def)

lemma sample_feedback_nan:
  assumes "i < wheels_per_side (wheel_params_' s)"
    and "i < length (registered_left_wheel_handles_' s)"
    and "i < length (registered_right_wheel_handles_' s)"
    and "i < length (registered_left_steering_handles_' s)"
    and "i < length (registered_right_steering_handles_' s)"
    and "isnan (registered_left_wheel_handles_' s ! i) \<or> isnan (registered_right_wheel_handles_' s ! i)
       \<or> isnan (registered_left_steering_handles_' s ! i)
       \<or> isnan (registered_right_steering_handles_' s ! i)"
    and "index \<le> i"
  shows "\<exists>e. sample_feedback s index f = Inl e \<and> invalid_feedback e"
  using assms(7)
proof (induction "i - index" arbitrary: index f)
  case 0
  then have "index = i" by simp
  with assms(1-6) show ?case
    by (subst sample_feedback.simps) (auto simp: Let_def)
next
  case (Suc k)
  then have lt: "index < i" and k: "k = i - Suc index" and le: "Suc index \<le> i" by simp_all
  from Suc.hyps(1) [OF k le]
  have IH: "\<And>f'. \<exists>e. sample_feedback s (Suc index) f' = Inl e \<and> invalid_feedback e" .
  from lt assms(1-5) show ?case
    by (subst sample_feedback.simps) (auto simp: Let_def IH)
qed

lemma sample_feedback_valid:
  assumes "wheels_per_side (wheel_params_' s) \<le> length (registered_left_wheel_handles_' s)"
    and "wheels_per_side (wheel_params_' s) \<le> length (registered_right_wheel_handles_' s)"
    and "wheels_per_side (wheel_params_' s) \<le> length (registered_left_steering_handles_' s)"
    and "wheels_per_side (wheel_params_' s) \<le> length (registered_right_steering_handles_' s)"
    and "\<And>i. i < wheels_per_side (wheel_params_' s) \<Longrightarrow>
           \<not> isnan (registered_left_wheel_handles_' s ! i)
         \<and> \<not> isnan (registered_right_wheel_handles_' s ! i)
         \<and> \<not> isnan (registered_left_steering_handles_' s ! i)
         \<and> \<not> isnan (registered_right_steering_handles_' s ! i)"
    and "index \<le> wheels_per_side (wheel_params_' s)"
  shows "sample_feedback s index f =
         Inr \<lparr> left_velocity_mean =
                 foldl dadd (left_velocity_mean f)
                   (map dabs (map rpm_to_rads
                     (drop index (take (wheels_per_side (wheel_params_' s))
                       (registered_left_wheel_handles_' s))))),
               right_velocity_mean =
                 foldl dadd (right_velocity_mean f)
                   (map dabs (map rpm_to_rads
                     (drop index (take (wheels_per_side (wheel_params_' s))
                       (registered_right_wheel_handles_' s))))),
               left_angle_mean =
                 foldl dadd (left_angle_mean f)
                   (map dabs (drop index (take (wheels_per_side (wheel_params_' s))
                     (registered_left_steering_handles_' s)))),
               right_angle_mean =
                 foldl dadd (right_angle_mean f)
                   (map dabs (drop index (take (wheels_per_side (wheel_params_' s))
                     (registered_right_steering_handles_' s)))),
               feedback_q =
                 (if index = 0 \<and> 0 < wheels_per_side (wheel_params_' s)
                  then quadrant (rpm_to_rads (registered_left_wheel_handles_' s ! 0))
                         (registered_left_steering_handles_' s ! 0)
                  else feedback_q f) \<rparr>"
  using assms(6)
proof (induction "wheels_per_side (wheel_params_' s) - index" arbitrary: index f)
  case 0
  then have "index = wheels_per_side (wheel_params_' s)" by simp
  then show ?case
    by (subst sample_feedback.simps) simp
next
  case (Suc k)
  let ?n = "wheels_per_side (wheel_params_' s)"
  from Suc have lt: "index < ?n" and k: "k = ?n - Suc index" and le: "Suc index \<le> ?n"
    by simp_all
  note IH = Suc.hyps(1) [OF k le]
  have dr: "\<And>xs. ?n \<le> length xs \<Longrightarrow>
      drop index (take ?n xs) = xs ! index # drop (Suc index) (take ?n xs)"
    using lt by (simp add: Cons_nth_drop_Suc [symmetric])
  from lt assms(1-4) assms(5) [OF lt] show ?case
    by (subst sample_feedback.simps) (simp add: Let_def IH dr)
qed

lemma dabs_dadd_fixed: "dabs a = a \<Longrightarrow> dabs b = b \<Longrightarrow> dabs (dadd a b) = dadd a b"
  by (cases a; cases b) auto

lemma dabs_idem [simp]: "dabs (dabs x) = dabs x"
  by (cases x) simp_all

lemma dabs_foldl_fixed:
  "dabs a = a \<Longrightarrow> dabs (foldl dadd a (map dabs xs)) = foldl dadd a (map dabs xs)"
  by (induction xs arbitrary: a) (simp_all add: dabs_dadd_fixed)

lemma dabs_ddiv_count: "dabs S = S \<Longrightarrow> dabs (ddiv S (Fin (real n))) = ddiv S (Fin (real n))"
  by (cases S) (auto simp: inf_of_sign_def)

lemma dabs_mean_abs [simp]: "dabs (mean_abs xs) = mean_abs xs"
  by (simp add: mean_abs_def dabs_ddiv_count dabs_foldl_fixed)

lemma encoder_pair_valid:
  assumes "wheels_per_side (wheel_params_' s) \<le> length (registered_left_wheel_handles_' s)"
    and "wheels_per_side (wheel_params_' s) \<le> length (registered_right_wheel_handles_' s)"
    and "wheels_per_side (wheel_params_' s) \<le> length (registered_left_steering_handles_' s)"
    and "wheels_per_side (wheel_params_' s) \<le> length (registered_right_steering_handles_' s)"
    and "\<And>i. i < wheels_per_side (wheel_params_' s) \<Longrightarrow>
           \<not> isnan (registered_left_wheel_handles_' s ! i)
         \<and> \<not> isnan (registered_right_wheel_handles_' s ! i)
         \<and> \<not> isnan (registered_left_steering_handles_' s ! i)
         \<and> \<not> isnan (registered_right_steering_handles_' s ! i)"
    and "0 < wheels_per_side (wheel_params_' s)"
  shows "encoder_pair s =
         Inr (representative_angle
                (take (wheels_per_side (wheel_params_' s)) (registered_left_steering_handles_' s))
                (take (wheels_per_side (wheel_params_' s)) (registered_right_steering_handles_' s))
                (quadrant (rpm_to_rads (registered_left_wheel_handles_' s ! 0))
                   (registered_left_steering_handles_' s ! 0)),
              representative_velocity
                (map rpm_to_rads
                   (take (wheels_per_side (wheel_params_' s)) (registered_left_wheel_handles_' s)))
                (map rpm_to_rads
                   (take (wheels_per_side (wheel_params_' s)) (registered_right_wheel_handles_' s)))
                (quadrant (rpm_to_rads (registered_left_wheel_handles_' s ! 0))
                   (registered_left_steering_handles_' s ! 0)))"
proof -
  have m: "\<And>xs. wheels_per_side (wheel_params_' s) \<le> length xs \<Longrightarrow>
      ddiv (foldl dadd (Fin 0) (map dabs (take (wheels_per_side (wheel_params_' s)) xs)))
           (Fin (real (wheels_per_side (wheel_params_' s))))
      = mean_abs (take (wheels_per_side (wheel_params_' s)) xs)"
    by (simp add: mean_abs_def min_def)
  have m': "\<And>xs. wheels_per_side (wheel_params_' s) \<le> length xs \<Longrightarrow>
      ddiv (foldl dadd (Fin 0)
             (map dabs (map rpm_to_rads (take (wheels_per_side (wheel_params_' s)) xs))))
           (Fin (real (wheels_per_side (wheel_params_' s))))
      = mean_abs (map rpm_to_rads (take (wheels_per_side (wheel_params_' s)) xs))"
    by (simp add: mean_abs_def min_def)
  show ?thesis
    unfolding encoder_pair_def
    by (subst sample_feedback_valid [OF assms(1-5)])
       (simp_all add: assms Let_def m m' representative_angle_def representative_velocity_def
          del: map_map)
qed

section \<open>Properties of the closed-loop tick\<close>

lemma update_closed_loop_odometry:
  assumes "current_state s \<noteq> PRIMARY_STATE_INACTIVE"
    and "received_velocity_msg_ptr_' s = Some p"
    and "\<not> open_loop s"
    and "\<not> (\<not> deq (angular_z (twist_store (brake_on_timeout (current_time inp) p s) p)) (Fin 0)
            \<and> deq (linear_x (twist_store (brake_on_timeout (current_time inp) p s) p)) (Fin 0))"
    and "encoder_pair (brake_on_timeout (current_time inp) p s) = Inr (angle_encoder, velocity_encoder)"
  shows "odometry_' (snd (update c inp s)) =
         updateVel c (odometry_' s) angle_encoder velocity_encoder (current_time inp)"
  using assms
  by (auto simp: update_def Let_def publish_odometry_keeps update_odometry_def
      brake_on_timeout_keeps
      split: sum.splits option.splits prod.splits
      dest!: limit_command_keeps write_setpoint_keeps)

lemma update_closed_loop_error:
  assumes "current_state s \<noteq> PRIMARY_STATE_INACTIVE"
    and "received_velocity_msg_ptr_' s = Some p"
    and "\<not> open_loop s"
    and "\<not> (\<not> deq (angular_z (twist_store (brake_on_timeout (current_time inp) p s) p)) (Fin 0)
            \<and> deq (linear_x (twist_store (brake_on_timeout (current_time inp) p s) p)) (Fin 0))"
    and "encoder_pair (brake_on_timeout (current_time inp) p s) = Inl e"
  shows "update c inp s = (ERROR e, brake_on_timeout (current_time inp) p s)"
  using assms
  by (auto simp: update_def Let_def update_odometry_def brake_on_timeout_keeps)

text \<open>
  Claim C7, amended. In closed loop, on a tick that has accepted its command, when one of
  the sampled wheel velocities or steering positions is NaN the tick returns an invalid
  feedback error and the estimator is left as it was before the tick: the reading is
  neither integrated nor replaced by zero. (An infinite reading is not tested for.)
\<close>

theorem nan_reading_freezes_estimate:
  assumes "current_state s \<noteq> PRIMARY_STATE_INACTIVE"
    and "received_velocity_msg_ptr_' s = Some p"
    and "\<not> open_loop s"
    and "\<not> (\<not> deq (angular_z (twist_store (brake_on_timeout (current_time inp) p s) p)) (Fin 0)
            \<and> deq (linear_x (twist_store (brake_on_timeout (current_time inp) p s) p)) (Fin 0))"
    and "i < wheels_per_side (wheel_params_' s)"
    and "i < length (registered_left_wheel_handles_' s)"
    and "i < length (registered_right_wheel_handles_' s)"
    and "i < length (registered_left_steering_handles_' s)"
    and "i < length (registered_right_steering_handles_' s)"
    and "isnan (registered_left_wheel_handles_' s ! i) \<or> isnan (registered_right_wheel_handles_' s ! i)
       \<or> isnan (registered_left_steering_handles_' s ! i)
       \<or> isnan (registered_right_steering_handles_' s ! i)"
  shows "(\<exists>e. fst (update c inp s) = ERROR e \<and> invalid_feedback e)
       \<and> odometry_' (snd (update c inp s)) = odometry_' s"
proof -
  let ?s1 = "brake_on_timeout (current_time inp) p s"
  have "\<exists>e. sample_feedback ?s1 0
              \<lparr> left_velocity_mean = Fin 0, right_velocity_mean = Fin 0,
                left_angle_mean = Fin 0, right_angle_mean = Fin 0, feedback_q = 0 \<rparr> = Inl e
            \<and> invalid_feedback e"
    by (rule sample_feedback_nan [where i = i]) (simp_all add: brake_on_timeout_keeps assms)
  then obtain e where "encoder_pair ?s1 = Inl e" and inv: "invalid_feedback e"
    by (auto simp: encoder_pair_def)
  from update_closed_loop_error [OF assms(1-4) this(1), of c] inv show ?thesis
    by (simp add: brake_on_timeout_keeps)
qed

text \<open>
  Claim C10. In closed loop, on a tick that has accepted its command, with \<open>n\<close> wheels
  per side and no NaN among the first \<open>n\<close> readings of each kind, the estimator is
  handed: as velocity, the smaller of the means of the absolute left and right wheel
  velocities (in rad/s), positive if the quadrant of the first left wheel velocity and
  first left steering angle is 0 or 1 and negated otherwise; as angle, the larger of the
  means of the absolute left and right steering angles, positive if that quadrant is 0 or
  2 and negated otherwise.
\<close>

theorem closed_loop_representative_pair:
  assumes "current_state s \<noteq> PRIMARY_STATE_INACTIVE"
    and "received_velocity_msg_ptr_' s = Some p"
    and "\<not> open_loop s"
    and "\<not> (\<not> deq (angular_z (twist_store (brake_on_timeout (current_time inp) p s) p)) (Fin 0)
            \<and> deq (linear_x (twist_store (brake_on_timeout (current_time inp) p s) p)) (Fin 0))"
    and "wheels_per_side (wheel_params_' s) = n"
    and "0 < n"
    and "n \<le> length (registered_left_wheel_handles_' s)"
    and "n \<le> length (registered_right_wheel_handles_' s)"
    and "n \<le> length (registered_left_steering_handles_' s)"
    and "n \<le> length (registered_right_steering_handles_' s)"
    and "\<forall>i<n. \<not> isnan (registered_left_wheel_handles_' s ! i)
         \<and> \<not> isnan (registered_right_wheel_handles_' s ! i)
         \<and> \<not> isnan (registered_left_steering_handles_' s ! i)
         \<and> \<not> isnan (registered_right_steering_handles_' s ! i)"
  shows
    "(let left_velocities = map rpm_to_rads (take n (registered_left_wheel_handles_' s));
          right_velocities = map rpm_to_rads (take n (registered_right_wheel_handles_' s));
          left_angles = take n (registered_left_steering_handles_' s);
          right_angles = take n (registered_right_steering_handles_' s);
          k = quadrant (left_velocities ! 0) (left_angles ! 0)
      in odometry_' (snd (update c inp s)) =
           updateVel c (odometry_' s)
             (representative_angle left_angles right_angles k)
             (representative_velocity left_velocities right_velocities k)
             (current_time inp))"
proof -
  let ?s1 = "brake_on_timeout (current_time inp) p s"
  note enc = encoder_pair_valid [of ?s1, simplified brake_on_timeout_keeps]
  have "encoder_pair ?s1 =
         Inr (representative_angle
                (take n (registered_left_steering_handles_' s))
                (take n (registered_right_steering_handles_' s))
                (quadrant (rpm_to_rads (registered_left_wheel_handles_' s ! 0))
                   (registered_left_steering_handles_' s ! 0)),
              representative_velocity
                (map rpm_to_rads (take n (registered_left_wheel_handles_' s)))
                (map rpm_to_rads (take n (registered_right_wheel_handles_' s)))
                (quadrant (rpm_to_rads (registered_left_wheel_handles_' s ! 0))
                   (registered_left_steering_handles_' s ! 0)))"
    using enc assms(5-11) by simp
  from update_closed_loop_odometry [OF assms(1-4) this, of c] assms(6,7,9) show ?thesis
    by (simp add: Let_def)
qed

lemmas tick_defs =
  update_def example_controller_def example_wheels_def example_collaborators_def
  tick_at_def brake_on_timeout_def apply_multipliers_def update_odometry_def keep_twist_def
  keep_pair_def publish_odometry_def limit_command_def Let_def clamp_unit_def zero_twist_def
  solve_def wheel_targets_of_def quadrant_def dgt_def dge_def deq_def apply_direction_def
  d_def of_integer_def write_setpoint_def write_wheels.simps rads_to_rpm_def seconds_def
  encoder_pair_def sample_feedback.simps rpm_to_rads_def dmin_def dmax_def inf_of_sign_def
  zero_odometry_def

text \<open>
  Claim C7, as stated, on the closed-loop example whose first left steering position reads
  infinity: the tick returns OK and the estimator, which held zeros, has been handed the
  angle infinity and the velocity 3.14.
\<close>

theorem infinite_reading_reaches_estimator:
  "registered_left_steering_handles_' infinite_reading_controller ! 0 = PInf
   \<and> \<not> open_loop infinite_reading_controller
   \<and> fst (update example_collaborators (tick_at 100000000) infinite_reading_controller) = OK
   \<and> odometry_' (snd (update example_collaborators (tick_at 100000000) infinite_reading_controller))
       = zero_odometry \<lparr> timestamp_' := 100000000, linear_' := Fin (157 / 50), angular_' := PInf \<rparr>
   \<and> odometry_' infinite_reading_controller = zero_odometry"
  by (simp add: infinite_reading_controller_def closed_loop_controller_def tick_defs)

text \<open>
  The closed-loop example with NaN as the velocity of the second right wheel.
\<close>

theorem nan_reading_freezes_estimate_witness:
  "current_state nan_reading_controller \<noteq> PRIMARY_STATE_INACTIVE
   \<and> received_velocity_msg_ptr_' nan_reading_controller = Some 0
   \<and> \<not> open_loop nan_reading_controller
   \<and> twist_store (brake_on_timeout (current_time (tick_at 100000000)) 0 nan_reading_controller) 0
       = \<lparr> stamp = 0, linear_x = Fin 1, angular_z = Fin 0 \<rparr>
   \<and> wheels_per_side (wheel_params_' nan_reading_controller) = 2
   \<and> registered_right_wheel_handles_' nan_reading_controller = [Fin 30, NaN]
   \<and> (\<exists>e. fst (update example_collaborators (tick_at 100000000) nan_reading_controller) = ERROR e
          \<and> invalid_feedback e)
   \<and> odometry_' (snd (update example_collaborators (tick_at 100000000) nan_reading_controller))
       = odometry_' nan_reading_controller"
proof -
  have h: "current_state nan_reading_controller \<noteq> PRIMARY_STATE_INACTIVE"
    "received_velocity_msg_ptr_' nan_reading_controller = Some 0"
    "\<not> open_loop nan_reading_controller"
    "wheels_per_side (wheel_params_' nan_reading_controller) = 2"
    "registered_right_wheel_handles_' nan_reading_controller = [Fin 30, NaN]"
    "length (registered_left_wheel_handles_' nan_reading_controller) = 2"
    "length (registered_left_steering_handles_' nan_reading_controller) = 2"
    "length (registered_right_steering_handles_' nan_reading_controller) = 2"
    by (simp_all add: nan_reading_controller_def closed_loop_controller_def example_controller_def example_wheels_def)
  have cmd: "twist_store (brake_on_timeout (current_time (tick_at 100000000)) 0
                nan_reading_controller) 0
       = \<lparr> stamp = 0, linear_x = Fin 1, angular_z = Fin 0 \<rparr>"
    by (simp add: nan_reading_controller_def closed_loop_controller_def example_controller_def example_wheels_def
        tick_at_def brake_on_timeout_def)
  have acc: "\<not> (\<not> deq (angular_z (twist_store
                (brake_on_timeout (current_time (tick_at 100000000)) 0 nan_reading_controller) 0))
                (Fin 0)
            \<and> deq (linear_x (twist_store
                (brake_on_timeout (current_time (tick_at 100000000)) 0 nan_reading_controller) 0))
                (Fin 0))"
    by (simp add: cmd deq_def)
  have "(\<exists>e. fst (update example_collaborators (tick_at 100000000) nan_reading_controller) = ERROR e
          \<and> invalid_feedback e)
      \<and> odometry_' (snd (update example_collaborators (tick_at 100000000) nan_reading_controller))
          = odometry_' nan_reading_controller"
    by (rule nan_reading_freezes_estimate [OF h(1,2,3) acc, where i = 1]) (simp_all add: h)
  with h cmd show ?thesis by simp
qed

text \<open>
  The closed-loop example: wheel readings of 60 and 30 rpm on the left, 30 and 30 on the
  right; the means of the absolute velocities are 4.71 and 3.14, those of the absolute
  angles 1/4 and 1/8, the quadrant is 0.
\<close>

theorem closed_loop_representative_pair_witness:
  "current_state closed_loop_controller \<noteq> PRIMARY_STATE_INACTIVE
   \<and> received_velocity_msg_ptr_' closed_loop_controller = Some 0
   \<and> \<not> open_loop closed_loop_controller
   \<and> twist_store (brake_on_timeout (current_time (tick_at 100000000)) 0 closed_loop_controller) 0
       = \<lparr> stamp = 0, linear_x = Fin 1, angular_z = Fin 0 \<rparr>
   \<and> wheels_per_side (wheel_params_' closed_loop_controller) = 2
   \<and> registered_left_wheel_handles_' closed_loop_controller = [Fin 60, Fin 30]
   \<and> registered_right_wheel_handles_' closed_loop_controller = [Fin 30, Fin 30]
   \<and> registered_left_steering_handles_' closed_loop_controller = [Fin (1 / 4), Fin (- (1 / 4))]
   \<and> registered_right_steering_handles_' closed_loop_controller = [Fin (- (1 / 8)), Fin (1 / 8)]
   \<and> odometry_' (snd (update example_collaborators (tick_at 100000000) closed_loop_controller))
       = zero_odometry \<lparr> timestamp_' := 100000000, linear_' := Fin (157 / 50),
                          angular_' := Fin (1 / 4) \<rparr>"
proof -
  have h: "current_state closed_loop_controller \<noteq> PRIMARY_STATE_INACTIVE"
    "received_velocity_msg_ptr_' closed_loop_controller = Some 0"
    "\<not> open_loop closed_loop_controller"
    "wheels_per_side (wheel_params_' closed_loop_controller) = 2"
    "registered_left_wheel_handles_' closed_loop_controller = [Fin 60, Fin 30]"
    "registered_right_wheel_handles_' closed_loop_controller = [Fin 30, Fin 30]"
    "registered_left_steering_handles_' closed_loop_controller = [Fin (1 / 4), Fin (- (1 / 4))]"
    "registered_right_steering_handles_' closed_loop_controller = [Fin (- (1 / 8)), Fin (1 / 8)]"
    "odometry_' closed_loop_controller = zero_odometry"
    by (simp_all add: closed_loop_controller_def example_controller_def example_wheels_def)
  have cmd: "twist_store (brake_on_timeout (current_time (tick_at 100000000)) 0
                closed_loop_controller) 0
       = \<lparr> stamp = 0, linear_x = Fin 1, angular_z = Fin 0 \<rparr>"
    by (simp add: closed_loop_controller_def example_controller_def example_wheels_def tick_at_def
        brake_on_timeout_def)
  have acc: "\<not> (\<not> deq (angular_z (twist_store
                (brake_on_timeout (current_time (tick_at 100000000)) 0 closed_loop_controller) 0))
                (Fin 0)
            \<and> deq (linear_x (twist_store
                (brake_on_timeout (current_time (tick_at 100000000)) 0 closed_loop_controller) 0))
                (Fin 0))"
    by (simp add: cmd deq_def)
  have valid: "\<forall>i<2. \<not> isnan (registered_left_wheel_handles_' closed_loop_controller ! i)
         \<and> \<not> isnan (registered_right_wheel_handles_' closed_loop_controller ! i)
         \<and> \<not> isnan (registered_left_steering_handles_' closed_loop_controller ! i)
         \<and> \<not> isnan (registered_right_steering_handles_' closed_loop_controller ! i)"
    by (simp add: h less_Suc_eq numeral_2_eq_2)
  have "odometry_' (snd (update example_collaborators (tick_at 100000000) closed_loop_controller))
      = updateVel example_collaborators zero_odometry
          (representative_angle [Fin (1 / 4), Fin (- (1 / 4))] [Fin (- (1 / 8)), Fin (1 / 8)]
             (quadrant (rpm_to_rads (Fin 60)) (Fin (1 / 4))))
          (representative_velocity [rpm_to_rads (Fin 60), rpm_to_rads (Fin 30)]
             [rpm_to_rads (Fin 30), rpm_to_rads (Fin 30)]
             (quadrant (rpm_to_rads (Fin 60)) (Fin (1 / 4))))
          (current_time (tick_at 100000000))"
    using closed_loop_representative_pair [OF h(1,2,3) acc h(4) _ _ _ _ _ valid,
        of example_collaborators]
    by (simp add: h Let_def)
  then show ?thesis
    using h cmd
    by (simp add: representative_angle_def representative_velocity_def mean_abs_def
        rpm_to_rads_def quadrant_def dgt_def dge_def deq_def dmin_def dmax_def of_integer_def
        example_collaborators_def keep_pair_def tick_at_def zero_odometry_def)
qed

section \<open>Properties of the unit conversions\<close>

text \<open>Two lower bounds of \<open>\<pi>\<close>, from the Taylor polynomial of the cosine.\<close>

lemma cos_coeff_values:
  "cos_coeff (Suc 0) = 0" "cos_coeff 2 = - 1 / 2" "cos_coeff 3 = 0"
  "cos_coeff 4 = 1 / 24" "cos_coeff 5 = 0" "cos_coeff 6 = - 1 / 720" "cos_coeff 7 = 0"
  "cos_coeff 8 = 1 / 40320" "cos_coeff 9 = 0" "cos_coeff 10 = - 1 / 3628800" "cos_coeff 11 = 0"
  by (simp_all add: cos_coeff_def fact_numeral)

lemma cos_poly: "(\<Sum>m<12. cos_coeff m * (x::real) ^ m) =
   1 - x^2 / 2 + x^4 / 24 - x^6 / 720 + x^8 / 40320 - x^10 / 3628800"
proof -
  have "{..<12::nat} = {0, 1, 2, 3, 4, 5, 6, 7, 8, 9, 10, 11}" by auto presburger
  then show ?thesis
    by (simp add: cos_coeff_values)
qed

lemma cos_lower_bound:
  assumes "0 < (x::real)"
  shows "1 - x^2 / 2 + x^4 / 24 - x^6 / 720 + x^8 / 40320 - x^10 / 3628800 - x ^ 12 / 479001600
         \<le> cos x"
proof -
  from Maclaurin_cos_expansion2 [of x 12] assms
  obtain t where t: "cos x = (\<Sum>m<12. cos_coeff m * x ^ m)
      + (cos (t + 1/2 * real 12 * pi) / fact 12) * x ^ 12"
    by auto
  have "cos (t + 1/2 * real 12 * pi) = cos (t + 6 * pi)" by simp
  also have "\<dots> = cos t"
    using cos_npi [of 6] sin_npi [of 6] by (simp add: cos_add)
  finally have ct: "cos (t + 1/2 * real 12 * pi) = cos t" .
  have f: "fact 12 = (479001600::real)" by (simp add: fact_numeral)
  have "- 1 * (x ^ 12 / 479001600) \<le> cos t * (x ^ 12 / 479001600)"
    by (rule mult_right_mono) (use assms in simp_all)
  with t show ?thesis
    unfolding ct f cos_poly by simp
qed

lemma pi_gt_314: "157 / 50 < pi"
proof (rule ccontr)
  assume "\<not> 157 / 50 < pi"
  then have le: "pi / 2 \<le> 157 / 100" by simp
  have "cos (157 / 100 :: real) \<le> cos (pi / 2)"
    by (rule cos_monotone_0_pi_le) (use le pi_ge_two in simp_all)
  then have "cos (157 / 100 :: real) \<le> 0" by simp
  moreover have "0 < cos (157 / 100 :: real)"
    using cos_lower_bound [of "157 / 100"] by (simp add: power_divide)
  ultimately show False by simp
qed

lemma two_pi_gt_6283: "6283 / 1000 < 2 * pi"
proof (rule ccontr)
  assume "\<not> 6283 / 1000 < 2 * pi"
  then have le: "pi / 2 \<le> 6283 / 4000" by simp
  have "cos (6283 / 4000 :: real) \<le> cos (pi / 2)"
    by (rule cos_monotone_0_pi_le) (use le pi_ge_two in simp_all)
  then have "cos (6283 / 4000 :: real) \<le> 0" by simp
  moreover have "0 < cos (6283 / 4000 :: real)"
    using cos_lower_bound [of "6283 / 4000"] by (simp add: power_divide)
  ultimately show False by simp
qed

text \<open>
  Claim C9, on the code: a reading of 60 rpm becomes 6.28 rad/s, which is less than
  \<open>2\<pi>\<close>; a command of \<open>2\<pi>\<close> rad/s becomes more than 60 rpm; and a reading of 60 rpm
  converted to rad/s and back is 376800/6283 rpm, not 60. The factors are 2 * 3.14 / 60
  and 60 / 6.283, neither built on \<open>\<pi>\<close> nor reciprocal.
\<close>

theorem unit_conversions_truncate_pi:
  "rpm_to_rads (Fin 60) = Fin (157 / 25) \<and> 157 / 25 < 2 * pi
   \<and> rads_to_rpm (Fin (2 * pi)) = Fin (2 * pi * 60 / (6283 / 1000))
   \<and> 60 < 2 * pi * 60 / (6283 / 1000)
   \<and> rads_to_rpm (rpm_to_rads (Fin 60)) = Fin (376800 / 6283)"
  using pi_gt_314 two_pi_gt_6283
  by (simp add: rpm_to_rads_def rads_to_rpm_def)

end
